theory Spec2Isabelle
  imports Complex_Main
begin

section \<open>Conventions\<close>

text \<open>
  The Python sources compute with \<open>float\<close>; the development reads every float as a
  real number, so rounding, overflow, infinities and NaN are outside the model.
  Python \<open>int\<close> is \<open>int\<close>, \<open>Optional[t]\<close> is \<open>t option\<close>, and a raised
  exception is the left injection of a sum.
\<close>

datatype error = ValueError | ZeroDivisionError

section \<open>Validation gates (validation/gates.py)\<close>

datatype GateStatus = PASS | HALT | WARN

text \<open>
  A gate result keeps the status, the gate's name, the checked value and the threshold.
  The \<open>message\<close> field of the source is a formatted rendering of the same numbers and is
  left out.
\<close>

record GateResult =
  status :: GateStatus
  gate_name :: string
  gate_value :: "real option"
  gate_threshold :: "real option"

record ValidationReport =
  results :: "GateResult list"

text \<open>\<open>ValidationReport.overall_status\<close>: Python's \<open>any\<close> over the results is \<open>list_ex\<close>.\<close>

definition overall_status :: "ValidationReport \<Rightarrow> GateStatus" where
  "overall_status rep =
     (if list_ex (\<lambda>r. status r = HALT) (results rep) then HALT
      else if list_ex (\<lambda>r. status r = WARN) (results rep) then WARN
      else PASS)"

definition passed :: "ValidationReport \<Rightarrow> bool" where
  "passed rep = (overall_status rep \<noteq> HALT)"

text \<open>How bad a status is: PASS below WARN below HALT.\<close>

fun severity :: "GateStatus \<Rightarrow> nat" where
  "severity PASS = 0"
| "severity WARN = 1"
| "severity HALT = 2"

text \<open>
  Pricing results. The base class lives in \<open>products/base.py\<close>; the gates read its
  \<open>present_value\<close> and \<open>duration\<close> only. The FIA and RILA results extend it
  (\<open>products/fia.py\<close>, \<open>products/rila.py\<close>); \<open>isinstance\<close> becomes a case
  distinction on the variant.
\<close>

record PricingResult =
  present_value :: real
  duration :: "real option"

record FIAPricingResult = PricingResult +
  embedded_option_value :: real
  option_budget :: real
  fair_cap :: "real option"
  fair_participation :: "real option"
  expected_credit :: real

record RILAPricingResult = PricingResult +
  protection_value :: real
  protection_type :: string
  upside_value :: real
  expected_return :: real
  max_loss :: real
  breakeven_return :: "real option"

datatype AnyResult =
  Plain PricingResult
| FIA FIAPricingResult
| RILA RILAPricingResult

fun base_present_value :: "AnyResult \<Rightarrow> real" where
  "base_present_value (Plain r) = present_value r"
| "base_present_value (FIA r) = present_value r"
| "base_present_value (RILA r) = present_value r"

fun base_duration :: "AnyResult \<Rightarrow> real option" where
  "base_duration (Plain r) = duration r"
| "base_duration (FIA r) = duration r"
| "base_duration (RILA r) = duration r"

text \<open>The keyword context of \<open>check\<close>: the three keys the gates look up.\<close>

record GateContext =
  ctx_premium :: "real option"
  ctx_cap_rate :: "real option"
  ctx_buffer_rate :: "real option"

definition get_premium :: "GateContext \<Rightarrow> real" where
  "get_premium ctx = (case ctx_premium ctx of None \<Rightarrow> 100 | Some p \<Rightarrow> p)"

definition mk_result :: "GateStatus \<Rightarrow> string \<Rightarrow> real option \<Rightarrow> real option \<Rightarrow> GateResult" where
  "mk_result s n v t = \<lparr>status = s, gate_name = n, gate_value = v, gate_threshold = t\<rparr>"

text \<open>The gates with their constructor parameters.\<close>

datatype ValidationGate =
  PresentValueBoundsGate real real
| DurationBoundsGate real
| FIAOptionBudgetGate real
| FIAExpectedCreditGate
| RILAMaxLossGate
| RILAProtectionValueGate real
| ArbitrageBoundsGate

definition pv_bounds_check :: "real \<Rightarrow> real \<Rightarrow> AnyResult \<Rightarrow> GateContext \<Rightarrow> GateResult" where
  "pv_bounds_check min_pv max_pv_multiple res ctx =
     (let premium = get_premium ctx;
          max_pv = premium * max_pv_multiple;
          pv = base_present_value res
      in if pv < min_pv then mk_result HALT ''present_value_bounds'' (Some pv) (Some min_pv)
         else if pv > max_pv then mk_result HALT ''present_value_bounds'' (Some pv) (Some max_pv)
         else mk_result PASS ''present_value_bounds'' (Some pv) None)"

definition duration_bounds_check :: "real \<Rightarrow> AnyResult \<Rightarrow> GateContext \<Rightarrow> GateResult" where
  "duration_bounds_check max_duration res ctx =
     (case base_duration res of
        None \<Rightarrow> mk_result PASS ''duration_bounds'' None None
      | Some d \<Rightarrow>
          if d < 0 then mk_result HALT ''duration_bounds'' (Some d) (Some 0)
          else if d > max_duration then mk_result HALT ''duration_bounds'' (Some d) (Some max_duration)
          else mk_result PASS ''duration_bounds'' (Some d) None)"

definition fia_option_budget_check :: "real \<Rightarrow> AnyResult \<Rightarrow> GateContext \<Rightarrow> GateResult" where
  "fia_option_budget_check tolerance res ctx =
     (case res of
        FIA r \<Rightarrow>
          if option_budget r \<le> 0
          then mk_result WARN ''fia_option_budget'' (Some (option_budget r)) None
          else
            (let ratio = embedded_option_value r / option_budget r
             in if ratio > 1 + tolerance
                then mk_result WARN ''fia_option_budget'' (Some ratio) (Some (1 + tolerance))
                else mk_result PASS ''fia_option_budget'' (Some ratio) None)
      | _ \<Rightarrow> mk_result PASS ''fia_option_budget'' None None)"

definition fia_expected_credit_check :: "AnyResult \<Rightarrow> GateContext \<Rightarrow> GateResult" where
  "fia_expected_credit_check res ctx =
     (case res of
        FIA r \<Rightarrow>
          if expected_credit r < - (1 / 1000)
          then mk_result HALT ''fia_expected_credit'' (Some (expected_credit r)) (Some 0)
          else
            (case ctx_cap_rate ctx of
               Some cap \<Rightarrow>
                 if expected_credit r > cap + 2 / 100
                 then mk_result HALT ''fia_expected_credit'' (Some (expected_credit r)) (Some cap)
                 else mk_result PASS ''fia_expected_credit'' (Some (expected_credit r)) None
             | None \<Rightarrow> mk_result PASS ''fia_expected_credit'' (Some (expected_credit r)) None)
      | _ \<Rightarrow> mk_result PASS ''fia_expected_credit'' None None)"

definition rila_max_loss_check :: "AnyResult \<Rightarrow> GateContext \<Rightarrow> GateResult" where
  "rila_max_loss_check res ctx =
     (case res of
        RILA r \<Rightarrow>
          if max_loss r < 0 then mk_result HALT ''rila_max_loss'' (Some (max_loss r)) (Some 0)
          else if max_loss r > 1 then mk_result HALT ''rila_max_loss'' (Some (max_loss r)) (Some 1)
          else
            (case ctx_buffer_rate ctx of
               Some b \<Rightarrow>
                 if protection_type r = ''buffer'' then
                   (let expected_max_loss = 1 - b
                    in if \<bar>max_loss r - expected_max_loss\<bar> > 1 / 100
                       then mk_result WARN ''rila_max_loss'' (Some (max_loss r)) (Some expected_max_loss)
                       else mk_result PASS ''rila_max_loss'' (Some (max_loss r)) None)
                 else if protection_type r = ''floor'' then
                   (if \<bar>max_loss r - b\<bar> > 1 / 100
                    then mk_result WARN ''rila_max_loss'' (Some (max_loss r)) (Some b)
                    else mk_result PASS ''rila_max_loss'' (Some (max_loss r)) None)
                 else mk_result PASS ''rila_max_loss'' (Some (max_loss r)) None
             | None \<Rightarrow> mk_result PASS ''rila_max_loss'' (Some (max_loss r)) None)
      | _ \<Rightarrow> mk_result PASS ''rila_max_loss'' None None)"

definition rila_protection_value_check :: "real \<Rightarrow> AnyResult \<Rightarrow> GateContext \<Rightarrow> GateResult" where
  "rila_protection_value_check max_protection_pct res ctx =
     (case res of
        RILA r \<Rightarrow>
          if protection_value r < 0
          then mk_result HALT ''rila_protection_value'' (Some (protection_value r)) (Some 0)
          else
            (let premium = get_premium ctx;
                 max_protection = premium * max_protection_pct
             in if protection_value r > max_protection
                then mk_result WARN ''rila_protection_value'' (Some (protection_value r)) (Some max_protection)
                else mk_result PASS ''rila_protection_value'' (Some (protection_value r)) None)
      | _ \<Rightarrow> mk_result PASS ''rila_protection_value'' None None)"

text \<open>
  In the arbitrage gate \<open>premium * result.max_loss if result.max_loss else premium\<close>
  tests the truthiness of a float: zero is false.
\<close>

definition arbitrage_bounds_check :: "AnyResult \<Rightarrow> GateContext \<Rightarrow> GateResult" where
  "arbitrage_bounds_check res ctx =
     (let premium = get_premium ctx
      in case res of
           FIA r \<Rightarrow>
             if embedded_option_value r > premium
             then mk_result HALT ''arbitrage_bounds'' (Some (embedded_option_value r)) (Some premium)
             else mk_result PASS ''arbitrage_bounds'' None None
         | RILA r \<Rightarrow>
             (let max_loss_value = (if max_loss r \<noteq> 0 then premium * max_loss r else premium)
              in if protection_value r > max_loss_value
                 then mk_result HALT ''arbitrage_bounds'' (Some (protection_value r)) (Some max_loss_value)
                 else mk_result PASS ''arbitrage_bounds'' None None)
         | Plain r \<Rightarrow> mk_result PASS ''arbitrage_bounds'' None None)"

fun check :: "ValidationGate \<Rightarrow> AnyResult \<Rightarrow> GateContext \<Rightarrow> GateResult" where
  "check (PresentValueBoundsGate min_pv max_pv_multiple) res ctx =
     pv_bounds_check min_pv max_pv_multiple res ctx"
| "check (DurationBoundsGate max_duration) res ctx = duration_bounds_check max_duration res ctx"
| "check (FIAOptionBudgetGate tolerance) res ctx = fia_option_budget_check tolerance res ctx"
| "check FIAExpectedCreditGate res ctx = fia_expected_credit_check res ctx"
| "check RILAMaxLossGate res ctx = rila_max_loss_check res ctx"
| "check (RILAProtectionValueGate max_protection_pct) res ctx =
     rila_protection_value_check max_protection_pct res ctx"
| "check ArbitrageBoundsGate res ctx = arbitrage_bounds_check res ctx"

text \<open>\<open>ValidationEngine._default_gates\<close> with the constructors' default arguments.\<close>

definition default_gates :: "ValidationGate list" where
  "default_gates =
     [PresentValueBoundsGate 0 10, DurationBoundsGate 30, FIAOptionBudgetGate (1 / 2),
      FIAExpectedCreditGate, RILAMaxLossGate, RILAProtectionValueGate (1 / 2),
      ArbitrageBoundsGate]"

text \<open>\<open>ValidationEngine.validate\<close>: every gate is run, in order, and its result appended.\<close>

definition validate :: "ValidationGate list \<Rightarrow> AnyResult \<Rightarrow> GateContext \<Rightarrow> ValidationReport" where
  "validate gates res ctx = \<lparr>results = map (\<lambda>g. check g res ctx) gates\<rparr>"

section \<open>Products and pricers (products/fia.py, products/rila.py)\<close>

text \<open>
  Sequencing of computations that may raise: the first error ends the computation.
\<close>

definition and_then :: "error + 'a \<Rightarrow> ('a \<Rightarrow> error + 'b) \<Rightarrow> error + 'b" where
  "and_then m f = (case m of Inl e \<Rightarrow> Inl e | Inr x \<Rightarrow> f x)"

text \<open>
  The product records are declared in \<open>data/schemas.py\<close>; the fields below are the ones
  the pricers read.
\<close>

record FIAProduct =
  product_name :: string
  cap_rate :: "real option"
  participation_rate :: "real option"
  spread_rate :: "real option"
  performance_triggered_rate :: "real option"

record RILAProduct =
  rila_product_name :: string
  buffer_rate :: "real option"
  buffer_modifier :: string
  rila_cap_rate :: "real option"
  term_years :: "real option"

datatype Product =
  FIAProd FIAProduct
| RILAProd RILAProduct
| OtherProd string

type_synonym params = "(string \<times> real) list"

text \<open>
  \<open>FIAPricer._determine_crediting_method\<close>. The parameter dictionary is an association
  list in insertion order. The inner tests of \<open>cap_rate\<close> in the participation and
  spread branches are kept as the source has them.
\<close>

definition determine_crediting_method :: "FIAProduct \<Rightarrow> error + (string \<times> params)" where
  "determine_crediting_method product =
     (if cap_rate product \<noteq> None then
        Inr (''cap'', [(''cap_rate'', the (cap_rate product))])
      else if participation_rate product \<noteq> None then
        (let params = [(''participation_rate'', the (participation_rate product))];
             params = (if cap_rate product \<noteq> None
                       then params @ [(''cap_rate'', the (cap_rate product))] else params)
         in Inr (''participation'', params))
      else if spread_rate product \<noteq> None then
        (let params = [(''spread_rate'', the (spread_rate product))];
             params = (if cap_rate product \<noteq> None
                       then params @ [(''cap_rate'', the (cap_rate product))] else params)
         in Inr (''spread'', params))
      else if performance_triggered_rate product \<noteq> None then
        Inr (''trigger'', [(''trigger_rate'', the (performance_triggered_rate product))])
      else Inl ValueError)"

text \<open>
  The FIA pricer. Black-Scholes, the Monte Carlo engine and the fair-term solvers are
  outside this development: the pricer carries them as functions that return a number
  or raise.
\<close>

record FIAPricer =
  option_budget_pct :: real
  fia_risk_free_rate :: real
  price_embedded_option :: "string \<Rightarrow> params \<Rightarrow> real \<Rightarrow> real \<Rightarrow> error + real"
  calculate_expected_credit :: "string \<Rightarrow> params \<Rightarrow> real \<Rightarrow> error + real"
  solve_fair_cap :: "real \<Rightarrow> real \<Rightarrow> real \<Rightarrow> error + real"
  solve_fair_participation :: "real \<Rightarrow> real \<Rightarrow> real \<Rightarrow> error + real"

text \<open>\<open>FIAPricer.price(product, term_years, premium)\<close>.\<close>

definition fia_price :: "FIAPricer \<Rightarrow> Product \<Rightarrow> real \<Rightarrow> real \<Rightarrow> error + FIAPricingResult" where
  "fia_price self product0 term premium =
     (case product0 of
        FIAProd product \<Rightarrow>
          and_then (determine_crediting_method product) (\<lambda>(method, params).
          let budget = premium * option_budget_pct self in
          and_then (price_embedded_option self method params term premium) (\<lambda>eov.
          and_then (calculate_expected_credit self method params term) (\<lambda>credit.
          and_then (solve_fair_cap self term budget premium) (\<lambda>fc.
          and_then (solve_fair_participation self term budget premium) (\<lambda>fp.
          let discount_factor = exp (- fia_risk_free_rate self * term);
              pv = discount_factor * premium * (1 + credit)
          in Inr \<lparr>present_value = pv, duration = Some term,
                   embedded_option_value = eov, option_budget = budget,
                   fair_cap = Some fc, fair_participation = Some fp,
                   expected_credit = credit\<rparr>)))))
      | _ \<Rightarrow> Inl ValueError)"

text \<open>
  The RILA pricer. \<open>RILAProduct.is_buffer\<close> is declared with the product in
  \<open>data/schemas.py\<close> and is taken as a parameter, as are the option pricing and Monte
  Carlo helpers; \<open>_calculate_breakeven\<close> catches the solver's error itself and returns
  an optional number.
\<close>

record RILAPricer =
  is_buffer :: "RILAProduct \<Rightarrow> bool"
  rila_risk_free_rate :: real
  price_protection :: "bool \<Rightarrow> real \<Rightarrow> real \<Rightarrow> real \<Rightarrow> error + real"
  price_upside :: "real option \<Rightarrow> real \<Rightarrow> real \<Rightarrow> error + real"
  calculate_expected_return :: "bool \<Rightarrow> real \<Rightarrow> real option \<Rightarrow> real \<Rightarrow> error + real"
  calculate_breakeven :: "bool \<Rightarrow> real \<Rightarrow> real option \<Rightarrow> real option"

text \<open>\<open>RILAPricer.price(product, term_years, premium)\<close>, \<open>term_years\<close> optional.\<close>

definition rila_price :: "RILAPricer \<Rightarrow> Product \<Rightarrow> real option \<Rightarrow> real \<Rightarrow> error + RILAPricingResult" where
  "rila_price self product0 term_arg premium =
     (case product0 of
        RILAProd product \<Rightarrow>
          (let term_opt = (if term_arg = None then term_years product else term_arg)
           in if term_opt = None \<or> the term_opt \<le> 0 then Inl ValueError
              else
                (let term = the term_opt;
                     buffer = is_buffer self product;
                     ptype = (if buffer then ''buffer'' else ''floor'')
                 in if buffer_rate product = None then Inl ValueError
                    else
                      (let rate = the (buffer_rate product);
                           cap = rila_cap_rate product;
                           loss = (if buffer then 1 - rate else rate)
                       in and_then (price_protection self buffer rate term premium) (\<lambda>protection.
                          and_then (price_upside self cap term premium) (\<lambda>upside.
                          and_then (calculate_expected_return self buffer rate cap term) (\<lambda>ret.
                          let breakeven = calculate_breakeven self buffer rate cap;
                              discount_factor = exp (- rila_risk_free_rate self * term);
                              pv = discount_factor * premium * (1 + ret)
                          in Inr \<lparr>present_value = pv, duration = Some term,
                                   protection_value = protection, protection_type = ptype,
                                   upside_value = upside, expected_return = ret,
                                   max_loss = loss, breakeven_return = breakeven\<rparr>))))))
      | _ \<Rightarrow> Inl ValueError)"

section \<open>Behavioural laws (behavioral/dynamic_lapse.py, behavioral/withdrawal.py)\<close>

text \<open>\<open>np.clip(a, a_min, a_max)\<close> is \<open>minimum(a_max, maximum(a, a_min))\<close>.\<close>

definition clip :: "real \<Rightarrow> real \<Rightarrow> real \<Rightarrow> real" where
  "clip a a_min a_max = min a_max (max a a_min)"

record LapseAssumptions =
  base_annual_lapse :: real
  min_lapse :: real
  max_lapse :: real
  sensitivity :: real

record LapseResult =
  lapse_rate :: real
  moneyness :: real
  adjustment_factor :: real

text \<open>
  \<open>DynamicLapseModel.calculate_lapse\<close>. The base of the power is positive wherever it is
  computed, so Python's \<open>**\<close> on floats is the real power \<open>powr\<close>.
\<close>

definition calculate_lapse :: "LapseAssumptions \<Rightarrow> real \<Rightarrow> real \<Rightarrow> bool \<Rightarrow> error + LapseResult" where
  "calculate_lapse assumptions gwb av surrender_period_complete =
     (if av \<le> 0 then Inl ValueError
      else if gwb < 0 then Inl ValueError
      else
        (let m = (if gwb > 0 then av / gwb else 1);
             factor = m powr sensitivity assumptions;
             base_rate = base_annual_lapse assumptions;
             base_rate = (if \<not> surrender_period_complete then base_rate * (2 / 10) else base_rate);
             rate = base_rate * factor;
             rate = clip rate (min_lapse assumptions) (max_lapse assumptions)
         in Inr \<lparr>lapse_rate = rate, moneyness = m, adjustment_factor = factor\<rparr>))"

text \<open>
  \<open>DynamicLapseModel.calculate_survival_probability\<close>: the array of ones is updated in
  place, one step after the other. \<open>survival_step\<close> is the body of the loop.
\<close>

definition survival_step :: "real list \<Rightarrow> real \<Rightarrow> nat \<Rightarrow> real list \<Rightarrow> real list" where
  "survival_step lapse_rates dt t survival =
     (let prob_stay = 1 - lapse_rates ! t * dt
      in survival[t + 1 := survival ! t * max prob_stay 0])"

definition calculate_survival_probability :: "real list \<Rightarrow> real \<Rightarrow> real list" where
  "calculate_survival_probability lapse_rates dt =
     (let n_steps = length lapse_rates;
          survival = replicate (n_steps + 1) 1
      in fold (survival_step lapse_rates dt) [0..<n_steps] survival)"

record WithdrawalAssumptions =
  base_utilization :: real
  age_sensitivity :: real
  min_utilization :: real
  max_utilization :: real

record WithdrawalResult =
  withdrawal_amount :: real
  utilization_rate :: real
  max_allowed :: real

text \<open>\<open>WithdrawalModel._calculate_utilization\<close>; age and years are Python integers.\<close>

definition calculate_utilization :: "WithdrawalAssumptions \<Rightarrow> int \<Rightarrow> int \<Rightarrow> real" where
  "calculate_utilization a age years_since_first_withdrawal =
     (let utilization = base_utilization a;
          age_adjustment = age_sensitivity a * real_of_int (max 0 (age - 65));
          utilization = utilization + age_adjustment;
          utilization =
            (if years_since_first_withdrawal < 3
             then utilization * (7 / 10 + (1 / 10) * real_of_int years_since_first_withdrawal)
             else utilization)
      in clip utilization (min_utilization a) (max_utilization a))"

text \<open>\<open>WithdrawalModel.calculate_withdrawal\<close>.\<close>

definition calculate_withdrawal ::
  "WithdrawalAssumptions \<Rightarrow> real \<Rightarrow> real \<Rightarrow> int \<Rightarrow> int \<Rightarrow> error + WithdrawalResult" where
  "calculate_withdrawal a gwb withdrawal_rate age years_since_first_withdrawal =
     (if gwb < 0 then Inl ValueError
      else if withdrawal_rate < 0 \<or> withdrawal_rate > 1 then Inl ValueError
      else
        (let allowed = gwb * withdrawal_rate;
             utilization = calculate_utilization a age years_since_first_withdrawal;
             amount = allowed * utilization
         in Inr \<lparr>withdrawal_amount = amount, utilization_rate = utilization,
                  max_allowed = allowed\<rparr>))"

section \<open>Scenario generator (regulatory/scenarios.py)\<close>

text \<open>
  A two-dimensional array is the list of its rows. \<open>shape\<close> reads the number of columns
  off the first row; an array without rows is the empty list whatever its second
  dimension, and its second dimension reads as 0.
\<close>

type_synonym matrix = "real list list"

definition shape :: "matrix \<Rightarrow> nat \<times> nat" where
  "shape m = (length m, case m of [] \<Rightarrow> 0 | row # _ \<Rightarrow> length row)"

text \<open>Scalar times array, and the element-wise sum of two arrays of one shape.\<close>

definition mat_scale :: "real \<Rightarrow> matrix \<Rightarrow> matrix" where
  "mat_scale c m = map (map (\<lambda>x. c * x)) m"

definition mat_add :: "matrix \<Rightarrow> matrix \<Rightarrow> matrix" where
  "mat_add a b = map2 (map2 (\<lambda>x y. x + y)) a b"

text \<open>
  \<open>rng.standard_normal((n, t))\<close> returns an array of shape \<open>(n, t)\<close>; the values drawn are
  a parameter, cell by cell.
\<close>

definition standard_normal :: "(nat \<Rightarrow> nat \<Rightarrow> real) \<Rightarrow> nat \<Rightarrow> nat \<Rightarrow> matrix" where
  "standard_normal draw n t = map (\<lambda>i. map (\<lambda>j. draw i j) [0..<t]) [0..<n]"

record VasicekParams =
  kappa :: real
  theta :: real
  rate_sigma :: real

record EquityParams =
  mu :: real
  equity_sigma :: real

record EconomicScenario =
  rates :: "real list"
  equity_returns :: "real list"
  scenario_id :: nat

record AG43Scenarios =
  scenarios :: "EconomicScenario list"
  n_scenarios :: nat
  projection_years :: nat

record ScenarioGenerator =
  gen_n_scenarios :: nat
  gen_projection_years :: nat

text \<open>\<open>ScenarioGenerator.__init__\<close> and \<open>EconomicScenario.__post_init__\<close>.\<close>

definition scenario_generator :: "int \<Rightarrow> int \<Rightarrow> error + ScenarioGenerator" where
  "scenario_generator n years =
     (if n \<le> 0 then Inl ValueError
      else if years \<le> 0 then Inl ValueError
      else Inr \<lparr>gen_n_scenarios = nat n, gen_projection_years = nat years\<rparr>)"

definition economic_scenario :: "real list \<Rightarrow> real list \<Rightarrow> nat \<Rightarrow> error + EconomicScenario" where
  "economic_scenario rs es i =
     (if length rs \<noteq> length es then Inl ValueError
      else Inr \<lparr>rates = rs, equity_returns = es, scenario_id = i\<rparr>)"

text \<open>\<open>ScenarioGenerator._generate_correlated_shocks\<close>, with the two draws as parameters.\<close>

definition generate_correlated_shocks ::
  "ScenarioGenerator \<Rightarrow> real \<Rightarrow> (nat \<Rightarrow> nat \<Rightarrow> real) \<Rightarrow> (nat \<Rightarrow> nat \<Rightarrow> real) \<Rightarrow> matrix \<times> matrix" where
  "generate_correlated_shocks self correlation draw1 draw2 =
     (let z1 = standard_normal draw1 (gen_n_scenarios self) (gen_projection_years self);
          z2 = standard_normal draw2 (gen_n_scenarios self) (gen_projection_years self);
          rate_shocks = z1;
          equity_shocks = mat_add (mat_scale correlation z1) (mat_scale (sqrt (1 - correlation ^ 2)) z2)
      in (rate_shocks, equity_shocks))"

text \<open>
  \<open>ScenarioGenerator._generate_vasicek_paths\<close>. \<open>vasicek_step\<close> is the body of the loop over
  the years: it works on column \<open>t\<close> of all paths at once, writes the floored rates into
  that column and keeps them as the previous rates. The scalar initial rate is broadcast
  over the paths.
\<close>

definition vasicek_step ::
  "VasicekParams \<Rightarrow> matrix \<Rightarrow> nat \<Rightarrow> matrix \<times> real list \<Rightarrow> matrix \<times> real list" where
  "vasicek_step params shocks t state =
     (case state of (paths, r_prev) \<Rightarrow>
        let column = map (\<lambda>row. row ! t) shocks;
            r_new = map2 (\<lambda>r z. r + kappa params * (theta params - r) + rate_sigma params * z)
                      r_prev column;
            floored = map (\<lambda>r. max r 0) r_new
        in (map2 (\<lambda>row r. row[t := r]) paths floored, floored))"

definition generate_vasicek_paths :: "real \<Rightarrow> VasicekParams \<Rightarrow> matrix \<Rightarrow> matrix" where
  "generate_vasicek_paths initial_rate params shocks =
     (case shape shocks of (n_rows, n_years) \<Rightarrow>
        let paths = replicate n_rows (replicate n_years 0);
            r_prev = replicate n_rows initial_rate
        in fst (fold (vasicek_step params shocks) [0..<n_years] (paths, r_prev)))"

text \<open>\<open>ScenarioGenerator._generate_gbm_returns\<close>.\<close>

definition generate_gbm_returns :: "EquityParams \<Rightarrow> matrix \<Rightarrow> matrix" where
  "generate_gbm_returns params shocks =
     map (map (\<lambda>z. exp ((mu params - (1 / 2) * equity_sigma params ^ 2) + equity_sigma params * z) - 1))
       shocks"

text \<open>
  \<open>ScenarioGenerator.generate_ag43_scenarios\<close>; \<open>build_scenarios\<close> is its loop that makes
  one scenario per path. The two parameter records are passed by the caller (the source
  fills in their defaults when they are absent), and \<open>initial_equity\<close>, which the source
  never reads, is left out.
\<close>

fun build_scenarios :: "matrix \<Rightarrow> matrix \<Rightarrow> nat list \<Rightarrow> error + EconomicScenario list" where
  "build_scenarios rate_paths equity_paths [] = Inr []"
| "build_scenarios rate_paths equity_paths (i # rest) =
     and_then (economic_scenario (rate_paths ! i) (equity_paths ! i) i) (\<lambda>scenario.
     and_then (build_scenarios rate_paths equity_paths rest) (\<lambda>more. Inr (scenario # more)))"

definition generate_ag43_scenarios ::
  "ScenarioGenerator \<Rightarrow> real \<Rightarrow> VasicekParams \<Rightarrow> EquityParams \<Rightarrow> real \<Rightarrow>
   (nat \<Rightarrow> nat \<Rightarrow> real) \<Rightarrow> (nat \<Rightarrow> nat \<Rightarrow> real) \<Rightarrow> error + AG43Scenarios" where
  "generate_ag43_scenarios self initial_rate rate_params equity_params correlation draw1 draw2 =
     (if \<not> (- 1 \<le> correlation \<and> correlation \<le> 1) then Inl ValueError
      else
        (case generate_correlated_shocks self correlation draw1 draw2 of
           (rate_shocks, equity_shocks) \<Rightarrow>
             let rate_paths = generate_vasicek_paths initial_rate rate_params rate_shocks;
                 equity_paths = generate_gbm_returns equity_params equity_shocks
             in and_then (build_scenarios rate_paths equity_paths [0..<gen_n_scenarios self])
                  (\<lambda>built. Inr \<lparr>scenarios = built, n_scenarios = gen_n_scenarios self,
                                 projection_years = gen_projection_years self\<rparr>)))"

text \<open>The rate before year \<open>t\<close> on path \<open>i\<close>: the initial rate, or the rate of the year before.\<close>

definition rate_before :: "real \<Rightarrow> matrix \<Rightarrow> nat \<Rightarrow> nat \<Rightarrow> real" where
  "rate_before initial_rate paths i t = (if t = 0 then initial_rate else paths ! i ! (t - 1))"

section \<open>GLWB fair fee (glwb/path_sim.py)\<close>

text \<open>
  \<open>GWBConfig\<close> is declared in \<open>glwb/gwb_tracker.py\<close>; its fields are the ones the solver
  copies.
\<close>

record GWBConfig =
  rollup_type :: string
  rollup_rate :: real
  rollup_cap_years :: int
  ratchet_enabled :: bool
  ratchet_frequency :: int
  withdrawal_rate :: real
  fee_rate :: real
  fee_basis :: string

record GLWBPathSimulator =
  gwb_config :: GWBConfig
  n_paths :: int
  seed :: "int option"

text \<open>
  \<open>GLWBPathSimulator.price\<close> runs the Monte Carlo simulation over the GWB tracker and the
  random generator; the solver reads only \<open>guarantee_cost\<close> of its result. A run of the
  simulator is therefore a parameter: from the number of runs made before, the simulator
  object and the arguments of \<open>price\<close> to the guarantee cost, or to the error raised. Every
  run the solver makes is recorded, in order, together with its outcome.
\<close>

record PriceCall =
  call_simulator :: GLWBPathSimulator
  call_premium :: real
  call_age :: int
  call_r :: real
  call_sigma :: real
  call_max_age :: int

type_synonym outcome = "error + real"

type_synonym simulation = "nat \<Rightarrow> PriceCall \<Rightarrow> outcome"

type_synonym run_log = "(PriceCall \<times> outcome) list"

text \<open>
  The simulator and the call that \<open>cost_at_fee\<close> builds for a fee: the configuration is
  copied field by field with the fee replaced, the path count is \<open>self.n_paths // 2\<close>, the
  seed is the solver's own.
\<close>

definition probe_call ::
  "GLWBPathSimulator \<Rightarrow> real \<Rightarrow> int \<Rightarrow> real \<Rightarrow> real \<Rightarrow> int \<Rightarrow> real \<Rightarrow> PriceCall" where
  "probe_call self premium age r sigma max_age fee =
     (let config =
            \<lparr>rollup_type = rollup_type (gwb_config self),
             rollup_rate = rollup_rate (gwb_config self),
             rollup_cap_years = rollup_cap_years (gwb_config self),
             ratchet_enabled = ratchet_enabled (gwb_config self),
             ratchet_frequency = ratchet_frequency (gwb_config self),
             withdrawal_rate = withdrawal_rate (gwb_config self),
             fee_rate = fee,
             fee_basis = fee_basis (gwb_config self)\<rparr>;
          sim = \<lparr>gwb_config = config, n_paths = n_paths self div 2, seed = seed self\<rparr>
      in \<lparr>call_simulator = sim, call_premium = premium, call_age = age, call_r = r,
          call_sigma = sigma, call_max_age = max_age\<rparr>)"

definition cost_at_fee ::
  "simulation \<Rightarrow> GLWBPathSimulator \<Rightarrow> real \<Rightarrow> int \<Rightarrow> real \<Rightarrow> real \<Rightarrow> int \<Rightarrow> real \<Rightarrow>
   run_log \<Rightarrow> real \<Rightarrow> outcome \<times> run_log" where
  "cost_at_fee run self premium age r sigma max_age target_cost runs fee =
     (let call = probe_call self premium age r sigma max_age fee;
          result = run (length runs) call
      in (and_then result (\<lambda>guarantee_cost. Inr (guarantee_cost - target_cost)),
          runs @ [(call, result)]))"

text \<open>
  The loop of \<open>GLWBPathSimulator.calculate_fair_fee\<close>, with the iterations left as its
  counter, and the method itself: what it returns, and the runs it made.
\<close>

fun bisection ::
  "simulation \<Rightarrow> GLWBPathSimulator \<Rightarrow> real \<Rightarrow> int \<Rightarrow> real \<Rightarrow> real \<Rightarrow> int \<Rightarrow> real \<Rightarrow> real \<Rightarrow>
   nat \<Rightarrow> real \<Rightarrow> real \<Rightarrow> run_log \<Rightarrow> outcome \<times> run_log" where
  "bisection run self premium age r sigma max_age target_cost tolerance 0 low high runs =
     (Inr ((low + high) / 2), runs)"
| "bisection run self premium age r sigma max_age target_cost tolerance (Suc k) low high runs =
     (let mid = (low + high) / 2
      in case cost_at_fee run self premium age r sigma max_age target_cost runs mid of
           (Inl e, runs') \<Rightarrow> (Inl e, runs')
         | (Inr cost, runs') \<Rightarrow>
             if \<bar>cost\<bar> < tolerance then (Inr mid, runs')
             else if cost > 0
             then bisection run self premium age r sigma max_age target_cost tolerance k mid high runs'
             else bisection run self premium age r sigma max_age target_cost tolerance k low mid runs')"

definition calculate_fair_fee ::
  "simulation \<Rightarrow> GLWBPathSimulator \<Rightarrow> real \<Rightarrow> int \<Rightarrow> real \<Rightarrow> real \<Rightarrow> int \<Rightarrow> real \<Rightarrow>
   real \<times> real \<Rightarrow> real \<Rightarrow> int \<Rightarrow> outcome \<times> run_log" where
  "calculate_fair_fee run self premium age r sigma max_age target_cost fee_bounds tolerance
     max_iterations =
     (case fee_bounds of (low, high) \<Rightarrow>
        bisection run self premium age r sigma max_age target_cost tolerance
          (nat max_iterations) low high [])"

text \<open>The fee a recorded run was made at.\<close>

definition probe_fee :: "PriceCall \<times> outcome \<Rightarrow> real" where
  "probe_fee p = fee_rate (gwb_config (call_simulator (fst p)))"

text \<open>Direction of a bisection step: up when the guarantee cost exceeds the target.\<close>

definition step_sign :: "real \<Rightarrow> real \<Rightarrow> real" where
  "step_sign target_cost g = (if g - target_cost > 0 then 1 else - 1)"

text \<open>
  The shape of a bisection run that starts from the midpoint \<open>m\<close> of a bracket of width
  \<open>w\<close> with \<open>k\<close> iterations left: the first probe is at \<open>m\<close>, each later probe moves by
  half the step before, and the result is the fee of a probe within tolerance, or the
  midpoint of the last bracket once the iterations are used up, or the error of the last
  run.
\<close>

definition bisection_trace ::
  "real \<Rightarrow> real \<Rightarrow> real \<Rightarrow> real \<Rightarrow> nat \<Rightarrow> outcome \<Rightarrow> run_log \<Rightarrow> bool" where
  "bisection_trace target_cost tolerance m w k res new \<longleftrightarrow>
     length new \<le> k
   \<and> (new \<noteq> [] \<longrightarrow> probe_fee (new ! 0) = m)
   \<and> (\<forall>j. Suc j < length new \<longrightarrow>
         (\<exists>g. snd (new ! j) = Inr g \<and> \<not> \<bar>g - target_cost\<bar> < tolerance
            \<and> probe_fee (new ! Suc j) =
                probe_fee (new ! j) + step_sign target_cost g * w / 2 ^ (j + 2)))
   \<and> (case res of
         Inl e \<Rightarrow> new \<noteq> [] \<and> snd (last new) = Inl e
       | Inr fee \<Rightarrow>
           (new \<noteq> [] \<and> fee = probe_fee (last new)
              \<and> (\<exists>g. snd (last new) = Inr g \<and> \<bar>g - target_cost\<bar> < tolerance))
         \<or> (length new = k
              \<and> (if new = [] then fee = m
                  else \<exists>g. snd (last new) = Inr g \<and> \<not> \<bar>g - target_cost\<bar> < tolerance
                         \<and> fee = probe_fee (last new)
                                 + step_sign target_cost g * w / 2 ^ (length new + 1))))"

section \<open>Sample inputs\<close>

text \<open>
  A FIA result priced at premium 100 with budget 3 and embedded option value 6, twice the
  budget, run through the default gates.
\<close>

definition over_budget_result :: FIAPricingResult where
  "over_budget_result =
     \<lparr>present_value = 100, duration = Some 1, embedded_option_value = 6, option_budget = 3,
      fair_cap = None, fair_participation = None, expected_credit = 4 / 100\<rparr>"

definition plain_context :: GateContext where
  "plain_context = \<lparr>ctx_premium = Some 100, ctx_cap_rate = None, ctx_buffer_rate = None\<rparr>"

definition cap_and_participation :: FIAProduct where
  "cap_and_participation =
     \<lparr>product_name = ''Both'', cap_rate = Some (8 / 100), participation_rate = Some (1 / 2),
      spread_rate = None, performance_triggered_rate = None\<rparr>"

definition no_method :: FIAProduct where
  "no_method =
     \<lparr>product_name = ''No Method'', cap_rate = None, participation_rate = None,
      spread_rate = None, performance_triggered_rate = None\<rparr>"

text \<open>A pricer whose helpers would succeed on any method and parameters.\<close>

definition lenient_pricer :: FIAPricer where
  "lenient_pricer =
     \<lparr>option_budget_pct = 3 / 100, fia_risk_free_rate = 5 / 100,
      price_embedded_option = (\<lambda>method params term premium. Inr 0),
      calculate_expected_credit = (\<lambda>method params term. Inr 0),
      solve_fair_cap = (\<lambda>term budget premium. Inr 1),
      solve_fair_participation = (\<lambda>term budget premium. Inr 0)\<rparr>"

text \<open>
  A pricer whose helpers return fixed numbers, and which tells a buffer from a floor by
  the modifier text, prices a 10 per cent buffer and a 10 per cent floor: the buffer's
  maximum loss is 0.9, the floor's is 0.1.
\<close>

definition fixed_pricer :: RILAPricer where
  "fixed_pricer =
     \<lparr>is_buffer = (\<lambda>p. buffer_modifier p = ''Losses Covered Up To''),
      rila_risk_free_rate = 0,
      price_protection = (\<lambda>b rate term premium. Inr 2),
      price_upside = (\<lambda>cap term premium. Inr 5),
      calculate_expected_return = (\<lambda>b rate cap term. Inr (3 / 100)),
      calculate_breakeven = (\<lambda>b rate cap. Some (- rate))\<rparr>"

definition buffer_product :: RILAProduct where
  "buffer_product =
     \<lparr>rila_product_name = ''10% Buffer'', buffer_rate = Some (1 / 10),
      buffer_modifier = ''Losses Covered Up To'', rila_cap_rate = Some (15 / 100),
      term_years = Some 1\<rparr>"

definition buffer_priced :: RILAPricingResult where
  "buffer_priced =
     \<lparr>present_value = 103, duration = Some 1, protection_value = 2,
      protection_type = ''buffer'', upside_value = 5, expected_return = 3 / 100,
      max_loss = 9 / 10, breakeven_return = Some (- (1 / 10))\<rparr>"

definition floor_product :: RILAProduct where
  "floor_product =
     \<lparr>rila_product_name = ''10% Floor'', buffer_rate = Some (1 / 10),
      buffer_modifier = ''Losses Covered After'', rila_cap_rate = Some (15 / 100),
      term_years = Some 1\<rparr>"

definition floor_priced :: RILAPricingResult where
  "floor_priced =
     \<lparr>present_value = 103, duration = Some 1, protection_value = 2,
      protection_type = ''floor'', upside_value = 5, expected_return = 3 / 100,
      max_loss = 1 / 10, breakeven_return = Some (- (1 / 10))\<rparr>"

definition default_lapse :: LapseAssumptions where
  "default_lapse =
     \<lparr>base_annual_lapse = 5 / 100, min_lapse = 1 / 100, max_lapse = 25 / 100, sensitivity = 1\<rparr>"

definition negative_base :: LapseAssumptions where
  "negative_base =
     \<lparr>base_annual_lapse = - (5 / 100), min_lapse = - 1, max_lapse = 25 / 100, sensitivity = 1\<rparr>"

definition default_withdrawal :: WithdrawalAssumptions where
  "default_withdrawal =
     \<lparr>base_utilization = 70 / 100, age_sensitivity = 1 / 100,
      min_utilization = 30 / 100, max_utilization = 1\<rparr>"

definition cautious_withdrawal :: WithdrawalAssumptions where
  "cautious_withdrawal =
     \<lparr>base_utilization = 40 / 100, age_sensitivity = 1 / 100,
      min_utilization = 30 / 100, max_utilization = 1\<rparr>"

definition two_paths :: ScenarioGenerator where
  "two_paths = \<lparr>gen_n_scenarios = 2, gen_projection_years = 2\<rparr>"

definition default_vasicek :: VasicekParams where
  "default_vasicek = \<lparr>kappa = 1 / 5, theta = 4 / 100, rate_sigma = 1 / 100\<rparr>"

definition default_equity :: EquityParams where
  "default_equity = \<lparr>mu = 7 / 100, equity_sigma = 18 / 100\<rparr>"

definition falling_draw :: "nat \<Rightarrow> nat \<Rightarrow> real" where
  "falling_draw i t = (if i = 0 then - 10 else 1)"

definition flat_draw :: "nat \<Rightarrow> nat \<Rightarrow> real" where
  "flat_draw i t = 5"

definition example_config :: GWBConfig where
  "example_config =
     \<lparr>rollup_type = ''compound'', rollup_rate = 5 / 100, rollup_cap_years = 10,
      ratchet_enabled = False, ratchet_frequency = 1, withdrawal_rate = 5 / 100,
      fee_rate = 1 / 100, fee_basis = ''gwb''\<rparr>"

definition example_simulator :: GLWBPathSimulator where
  "example_simulator = \<lparr>gwb_config = example_config, n_paths = 10000, seed = Some 5678\<rparr>"

text \<open>A simulator whose guarantee cost falls linearly in the fee: 0.04 - 2 * fee.\<close>

definition linear_cost :: simulation where
  "linear_cost k call = Inr (4 / 100 - 2 * fee_rate (gwb_config (call_simulator call)))"


definition example_fee :: "outcome \<times> run_log" where
  "example_fee =
     calculate_fair_fee linear_cost example_simulator 100 65 (4 / 100) (18 / 100) 100 0
       (1 / 1000, 3 / 100) (1 / 1000) 20"

section \<open>Overall status of a report\<close>

text \<open>
  C3. For every report, whatever its finite sequence of gate results, the overall status
  is the worst one among them: HALT when some result is HALT, otherwise WARN when some
  result is WARN, otherwise PASS; no result is more severe than the overall status.
\<close>

theorem overall_status_is_worst:
  "overall_status rep =
     (if HALT \<in> set (map status (results rep)) then HALT
      else if WARN \<in> set (map status (results rep)) then WARN
      else PASS)
   \<and> (\<forall>r \<in> set (results rep). severity (status r) \<le> severity (overall_status rep))"
proof -
  have ex: "list_ex (\<lambda>r. status r = s) xs \<longleftrightarrow> s \<in> set (map status xs)" for s xs
    by (auto simp: list_ex_iff)
  have first: "overall_status rep =
     (if HALT \<in> set (map status (results rep)) then HALT
      else if WARN \<in> set (map status (results rep)) then WARN
      else PASS)"
    unfolding overall_status_def ex by simp
  have second: "severity (status r) \<le> severity (overall_status rep)"
    if "r \<in> set (results rep)" for r
  proof (cases "status r")
    case PASS
    then show ?thesis by simp
  next
    case HALT
    with that have "HALT \<in> set (map status (results rep))" by force
    with first HALT show ?thesis by simp
  next
    case WARN
    with that have "WARN \<in> set (map status (results rep))" by force
    with first WARN show ?thesis by simp
  qed
  from first second show ?thesis by blast
qed

theorem overall_status_is_worst_witness:
  "overall_status \<lparr>results = [mk_result PASS ''a'' None None, mk_result WARN ''b'' None None]\<rparr> = WARN
   \<and> severity (status (mk_result PASS ''a'' None None)) \<le> severity WARN"
  using overall_status_is_worst
    [of "\<lparr>results = [mk_result PASS ''a'' None None, mk_result WARN ''b'' None None]\<rparr>"]
  by (simp add: mk_result_def)

section \<open>The FIA option budget gate\<close>

text \<open>
  C2 (as amended). For every FIA pricing result whose embedded option value exceeds 1.5
  times a positive option budget, the FIA option budget gate with its default tolerance
  of 0.5 returns WARN, not HALT. A validation run that contains the gate therefore never
  reports PASS: its overall status is HALT exactly when some gate of the run returns
  HALT, and WARN otherwise.
\<close>

theorem fia_option_budget_gate_warns:
  assumes budget: "0 < option_budget r"
      and excess: "embedded_option_value r > (3 / 2) * option_budget r"
      and member: "FIAOptionBudgetGate (1 / 2) \<in> set gates"
  shows "status (check (FIAOptionBudgetGate (1 / 2)) (FIA r) ctx) = WARN
         \<and> overall_status (validate gates (FIA r) ctx) =
             (if HALT \<in> set (map (\<lambda>g. status (check g (FIA r) ctx)) gates) then HALT else WARN)"
proof -
  from budget excess have ratio: "embedded_option_value r / option_budget r > 3 / 2"
    by (simp add: pos_less_divide_eq)
  with budget have warn: "status (check (FIAOptionBudgetGate (1 / 2)) (FIA r) ctx) = WARN"
    by (simp add: fia_option_budget_check_def mk_result_def Let_def)
  let ?sts = "map (\<lambda>g. status (check g (FIA r) ctx)) gates"
  have sts: "map status (results (validate gates (FIA r) ctx)) = ?sts"
    by (simp add: validate_def comp_def)
  have ex: "list_ex (\<lambda>r. status r = s) xs \<longleftrightarrow> s \<in> set (map status xs)" for s xs
    by (auto simp: list_ex_iff)
  from member warn have "WARN \<in> set ?sts" by force
  then have "overall_status (validate gates (FIA r) ctx) = (if HALT \<in> set ?sts then HALT else WARN)"
    unfolding overall_status_def ex sts by simp
  with warn show ?thesis by simp
qed

theorem fia_option_budget_gate_warns_witness:
  "status (check (FIAOptionBudgetGate (1 / 2)) (FIA over_budget_result) plain_context) = WARN
   \<and> overall_status (validate default_gates (FIA over_budget_result) plain_context) = WARN"
proof -
  have b: "0 < option_budget over_budget_result"
    by (simp add: over_budget_result_def)
  have e: "embedded_option_value over_budget_result > (3 / 2) * option_budget over_budget_result"
    by (simp add: over_budget_result_def)
  have m: "FIAOptionBudgetGate (1 / 2) \<in> set default_gates"
    by (simp add: default_gates_def)
  have nohalt: "HALT \<notin> set (map (\<lambda>g. status (check g (FIA over_budget_result) plain_context)) default_gates)"
    by (simp add: default_gates_def over_budget_result_def plain_context_def
        pv_bounds_check_def duration_bounds_check_def fia_option_budget_check_def
        fia_expected_credit_check_def rila_max_loss_check_def rila_protection_value_check_def
        arbitrage_bounds_check_def get_premium_def mk_result_def Let_def)
  from fia_option_budget_gate_warns [OF b e m, of plain_context] nohalt show ?thesis
    by simp
qed

theorem fia_option_budget_gate_halt_counterexample:
  "0 < option_budget over_budget_result
   \<and> embedded_option_value over_budget_result > (3 / 2) * option_budget over_budget_result
   \<and> status (check (FIAOptionBudgetGate (1 / 2)) (FIA over_budget_result) plain_context) \<noteq> HALT
   \<and> overall_status (validate default_gates (FIA over_budget_result) plain_context) \<noteq> HALT"
  by (simp add: overall_status_def validate_def default_gates_def over_budget_result_def
      plain_context_def pv_bounds_check_def duration_bounds_check_def fia_option_budget_check_def
      fia_expected_credit_check_def rila_max_loss_check_def rila_protection_value_check_def
      arbitrage_bounds_check_def get_premium_def mk_result_def Let_def)

section \<open>FIA crediting method\<close>

text \<open>
  C4. The FIA pricer reads the crediting method off whichever crediting field is set,
  with priority cap, then participation, then spread, then trigger. A product with none
  of the four fields set makes the method lookup raise, and pricing it raises as well,
  whatever the pricer: no method and no zero cap is substituted.
\<close>

theorem crediting_method_priority:
  "(cap_rate p = Some c \<longrightarrow>
      determine_crediting_method p = Inr (''cap'', [(''cap_rate'', c)]))
   \<and> (cap_rate p = None \<and> participation_rate p = Some q \<longrightarrow>
      determine_crediting_method p = Inr (''participation'', [(''participation_rate'', q)]))
   \<and> (cap_rate p = None \<and> participation_rate p = None \<and> spread_rate p = Some s \<longrightarrow>
      determine_crediting_method p = Inr (''spread'', [(''spread_rate'', s)]))
   \<and> (cap_rate p = None \<and> participation_rate p = None \<and> spread_rate p = None
        \<and> performance_triggered_rate p = Some t \<longrightarrow>
      determine_crediting_method p = Inr (''trigger'', [(''trigger_rate'', t)]))
   \<and> (cap_rate p = None \<and> participation_rate p = None \<and> spread_rate p = None
        \<and> performance_triggered_rate p = None \<longrightarrow>
      determine_crediting_method p = Inl ValueError
      \<and> fia_price pricer (FIAProd p) term premium = Inl ValueError)"
  by (simp add: determine_crediting_method_def fia_price_def and_then_def Let_def)

theorem crediting_method_priority_witness:
  "determine_crediting_method cap_and_participation = Inr (''cap'', [(''cap_rate'', 8 / 100)])
   \<and> determine_crediting_method no_method = Inl ValueError
   \<and> fia_price lenient_pricer (FIAProd no_method) 1 100 = Inl ValueError"
  using crediting_method_priority [of cap_and_participation "8 / 100"]
    crediting_method_priority [of no_method _ _ _ _ lenient_pricer 1 100]
  by (simp add: cap_and_participation_def no_method_def)

section \<open>RILA maximum loss\<close>

text \<open>
  C9. Whenever the RILA pricer accepts a product and returns a result, the product has a
  protection rate, and the result's \<open>max_loss\<close> is one minus that rate for a buffer
  product and the rate itself for a floor product; the protection type recorded in the
  result is the matching one. With the rate passed as context, the max-loss gate finds no
  mismatch: it does not warn.
\<close>

theorem rila_max_loss_by_protection:
  assumes "rila_price self (RILAProd p) term_arg premium = Inr res"
  shows "\<exists>rate. buffer_rate p = Some rate
           \<and> max_loss res = (if is_buffer self p then 1 - rate else rate)
           \<and> protection_type res = (if is_buffer self p then ''buffer'' else ''floor'')
           \<and> status (check RILAMaxLossGate (RILA res) (ctx\<lparr>ctx_buffer_rate := Some rate\<rparr>)) \<noteq> WARN"
proof -
  from assms obtain rate where rate: "buffer_rate p = Some rate"
    by (cases "buffer_rate p") (auto simp: rila_price_def Let_def split: if_splits)
  from assms rate have loss: "max_loss res = (if is_buffer self p then 1 - rate else rate)"
    and ptype: "protection_type res = (if is_buffer self p then ''buffer'' else ''floor'')"
    by (auto simp: rila_price_def Let_def and_then_def split: if_splits sum.splits)
  from loss ptype
  have "status (check RILAMaxLossGate (RILA res) (ctx\<lparr>ctx_buffer_rate := Some rate\<rparr>)) \<noteq> WARN"
    by (simp add: rila_max_loss_check_def mk_result_def Let_def)
  with rate loss ptype show ?thesis by blast
qed

lemma buffer_product_priced:
  "rila_price fixed_pricer (RILAProd buffer_product) None 100 = Inr buffer_priced"
  by (simp add: rila_price_def fixed_pricer_def buffer_product_def buffer_priced_def
      and_then_def Let_def)

lemma floor_product_priced:
  "rila_price fixed_pricer (RILAProd floor_product) None 100 = Inr floor_priced"
  by (simp add: rila_price_def fixed_pricer_def floor_product_def floor_priced_def
      and_then_def Let_def)

theorem rila_max_loss_by_protection_witness:
  "rila_price fixed_pricer (RILAProd buffer_product) None 100 = Inr buffer_priced
   \<and> is_buffer fixed_pricer buffer_product
   \<and> buffer_rate buffer_product = Some (1 / 10)
   \<and> max_loss buffer_priced = 1 - 1 / 10
   \<and> protection_type buffer_priced = ''buffer''
   \<and> rila_price fixed_pricer (RILAProd floor_product) None 100 = Inr floor_priced
   \<and> \<not> is_buffer fixed_pricer floor_product
   \<and> buffer_rate floor_product = Some (1 / 10)
   \<and> max_loss floor_priced = 1 / 10
   \<and> protection_type floor_priced = ''floor''"
proof -
  have b: "is_buffer fixed_pricer buffer_product" "buffer_rate buffer_product = Some (1 / 10)"
    by (simp_all add: fixed_pricer_def buffer_product_def)
  have f: "\<not> is_buffer fixed_pricer floor_product" "buffer_rate floor_product = Some (1 / 10)"
    by (simp_all add: fixed_pricer_def floor_product_def)
  from rila_max_loss_by_protection [OF buffer_product_priced, where ctx = plain_context]
  obtain rb where rb: "buffer_rate buffer_product = Some rb"
    "max_loss buffer_priced = (if is_buffer fixed_pricer buffer_product then 1 - rb else rb)"
    "protection_type buffer_priced
       = (if is_buffer fixed_pricer buffer_product then ''buffer'' else ''floor'')"
    by blast
  with b have bl: "max_loss buffer_priced = 1 - 1 / 10" "protection_type buffer_priced = ''buffer''"
    by simp_all
  from rila_max_loss_by_protection [OF floor_product_priced, where ctx = plain_context]
  obtain rf where rf: "buffer_rate floor_product = Some rf"
    "max_loss floor_priced = (if is_buffer fixed_pricer floor_product then 1 - rf else rf)"
    "protection_type floor_priced
       = (if is_buffer fixed_pricer floor_product then ''buffer'' else ''floor'')"
    by blast
  with f have fl: "max_loss floor_priced = 1 / 10" "protection_type floor_priced = ''floor''"
    by simp_all
  from buffer_product_priced floor_product_priced b f bl fl show ?thesis
    by simp
qed

section \<open>Dynamic lapse\<close>

text \<open>
  C5. For a guarantee base that is not negative and a positive account value, the
  dynamic lapse model returns the lapse rate clip(base * m ^ sensitivity, minimum,
  maximum), where the moneyness m is AV / GWB for a positive GWB and 1 for a GWB of zero,
  and base is 0.2 times the base annual lapse while the surrender period runs and the
  full base annual lapse once it is complete. Clipping is written out: the rate is
  raised to the minimum lapse where it falls below it, and then cut to the maximum lapse
  where it exceeds it.
\<close>

theorem calculate_lapse_formula:
  assumes "0 \<le> gwb" and "0 < av"
  shows "calculate_lapse a gwb av surrender_period_complete =
           Inr \<lparr>lapse_rate =
                   min (max_lapse a)
                     (max ((if surrender_period_complete then base_annual_lapse a
                            else (2 / 10) * base_annual_lapse a)
                           * (if 0 < gwb then av / gwb else 1) powr sensitivity a)
                          (min_lapse a)),
                 moneyness = (if 0 < gwb then av / gwb else 1),
                 adjustment_factor = (if 0 < gwb then av / gwb else 1) powr sensitivity a\<rparr>"
  using assms by (simp add: calculate_lapse_def clip_def Let_def mult.commute)

text \<open>
  With the default assumptions (base 0.05, minimum 0.01, maximum 0.25, sensitivity 1):
  a rate inside the bounds, a rate of 0.5 cut to the maximum, a rate of 0.001 during the
  surrender period raised to the minimum, and a GWB of zero.
\<close>

theorem calculate_lapse_formula_witness:
  "calculate_lapse default_lapse 110000 100000 True =
     Inr \<lparr>lapse_rate = 1 / 22, moneyness = 10 / 11, adjustment_factor = 10 / 11\<rparr>
   \<and> calculate_lapse default_lapse 10000 100000 True =
     Inr \<lparr>lapse_rate = 1 / 4, moneyness = 10, adjustment_factor = 10\<rparr>
   \<and> calculate_lapse default_lapse 100000 10000 False =
     Inr \<lparr>lapse_rate = 1 / 100, moneyness = 1 / 10, adjustment_factor = 1 / 10\<rparr>
   \<and> calculate_lapse default_lapse 0 100000 True =
     Inr \<lparr>lapse_rate = 1 / 20, moneyness = 1, adjustment_factor = 1\<rparr>"
proof -
  have a: "(0::real) \<le> 110000" and b: "(0::real) < 100000" and c: "(0::real) \<le> 0"
    and d: "(0::real) \<le> 10000" and e: "(0::real) \<le> 100000" and f: "(0::real) < 10000"
    by simp_all
  show ?thesis
    using calculate_lapse_formula [OF a b, of default_lapse True]
      calculate_lapse_formula [OF d b, of default_lapse True]
      calculate_lapse_formula [OF e f, of default_lapse False]
      calculate_lapse_formula [OF c b, of default_lapse True]
    by (simp add: default_lapse_def)
qed

lemma clip_mono: "x \<le> y \<Longrightarrow> clip x lo hi \<le> clip y lo hi"
  by (auto simp: clip_def min_def max_def)

text \<open>
  C6 (as amended). For every lapse assumption set with sensitivity at least 0 and a base
  annual lapse that is not negative, a fixed surrender-period flag, and positive account
  values av1 \<le> av2 against the same positive GWB, both lapse computations return, and
  the lapse rate at av1 is at most the lapse rate at av2: lapse does not decrease as the
  moneyness AV / GWB grows.
\<close>

theorem lapse_monotone_in_moneyness:
  assumes sens: "0 \<le> sensitivity a" and base: "0 \<le> base_annual_lapse a"
      and gwb: "0 < gwb" and av1: "0 < av1" and le: "av1 \<le> av2"
  shows "\<exists>r1 r2. calculate_lapse a gwb av1 flag = Inr r1
           \<and> calculate_lapse a gwb av2 flag = Inr r2
           \<and> moneyness r1 \<le> moneyness r2
           \<and> lapse_rate r1 \<le> lapse_rate r2"
proof -
  from av1 le have av2: "0 < av2" by simp
  let ?b = "if flag then base_annual_lapse a else base_annual_lapse a * (2 / 10)"
  from base have b0: "0 \<le> ?b" by simp
  from gwb le have m: "av1 / gwb \<le> av2 / gwb" by (simp add: divide_right_mono)
  from gwb av1 have "0 \<le> av1 / gwb" by simp
  with m sens have "(av1 / gwb) powr sensitivity a \<le> (av2 / gwb) powr sensitivity a"
    by (intro powr_mono2) simp_all
  from this b0 have "?b * (av1 / gwb) powr sensitivity a \<le> ?b * (av2 / gwb) powr sensitivity a"
    by (rule mult_left_mono)
  then have "clip (?b * (av1 / gwb) powr sensitivity a) (min_lapse a) (max_lapse a)
             \<le> clip (?b * (av2 / gwb) powr sensitivity a) (min_lapse a) (max_lapse a)"
    by (rule clip_mono)
  with gwb av1 av2 m show ?thesis
    by (cases flag) (simp_all add: calculate_lapse_def Let_def)
qed

theorem lapse_monotone_in_moneyness_witness:
  "\<exists>r1 r2. calculate_lapse default_lapse 100 80 True = Inr r1
           \<and> calculate_lapse default_lapse 100 120 True = Inr r2
           \<and> moneyness r1 \<le> moneyness r2
           \<and> lapse_rate r1 \<le> lapse_rate r2"
proof -
  have s: "0 \<le> sensitivity default_lapse" and b: "0 \<le> base_annual_lapse default_lapse"
    by (simp_all add: default_lapse_def)
  have g: "(0::real) < 100" and a: "(0::real) < 80" and l: "(80::real) \<le> 120"
    by simp_all
  from lapse_monotone_in_moneyness [OF s b g a l] show ?thesis .
qed

theorem lapse_monotone_counterexample:
  "0 \<le> sensitivity negative_base
   \<and> calculate_lapse negative_base 1 1 True =
       Inr \<lparr>lapse_rate = - (1 / 20), moneyness = 1, adjustment_factor = 1\<rparr>
   \<and> calculate_lapse negative_base 1 2 True =
       Inr \<lparr>lapse_rate = - (1 / 10), moneyness = 2, adjustment_factor = 2\<rparr>
   \<and> \<not> (- (1 / 20) \<le> (- (1 / 10) :: real))"
  by (simp add: calculate_lapse_def negative_base_def clip_def Let_def)

section \<open>Withdrawal utilization\<close>

text \<open>
  C7. For a GWB that is not negative, a withdrawal rate between 0 and 1, any age and a
  number of years since the first withdrawal that is not negative, the withdrawal model
  returns the amount GWB * rate * u with the utilization
  u = clip(ramp * (base + age sensitivity * max(0, age - 65)), minimum, maximum), where
  ramp is 0.7, 0.8 and 0.9 in the first three withdrawal years and 1 from then on.
  Clipping is written out: the ramped utilization is raised to the minimum utilization
  where it falls below it, and then cut to the maximum utilization where it exceeds it.
\<close>

theorem calculate_withdrawal_formula:
  assumes "0 \<le> gwb" and "0 \<le> rate" and "rate \<le> 1" and "0 \<le> years"
  shows "calculate_withdrawal a gwb rate age years =
           Inr \<lparr>withdrawal_amount =
                   gwb * rate *
                   min (max_utilization a)
                     (max ((if years = 0 then 7 / 10 else if years = 1 then 8 / 10
                            else if years = 2 then 9 / 10 else 1)
                           * (base_utilization a
                              + age_sensitivity a * real_of_int (max 0 (age - 65))))
                          (min_utilization a)),
                 utilization_rate =
                   min (max_utilization a)
                     (max ((if years = 0 then 7 / 10 else if years = 1 then 8 / 10
                            else if years = 2 then 9 / 10 else 1)
                           * (base_utilization a
                              + age_sensitivity a * real_of_int (max 0 (age - 65))))
                          (min_utilization a)),
                 max_allowed = gwb * rate\<rparr>"
proof -
  let ?ramp = "if years = 0 then 7 / 10 else if years = 1 then 8 / 10
               else if years = 2 then 9 / 10 else (1::real)"
  let ?raw = "?ramp * (base_utilization a + age_sensitivity a * real_of_int (max 0 (age - 65)))"
  from \<open>0 \<le> years\<close> consider "years = 0" | "years = 1" | "years = 2" | "3 \<le> years"
    by linarith
  then have u: "calculate_utilization a age years
                  = clip ?raw (min_utilization a) (max_utilization a)"
    by cases (simp_all add: calculate_utilization_def Let_def mult.commute)
  have c: "clip ?raw (min_utilization a) (max_utilization a)
             = min (max_utilization a) (max ?raw (min_utilization a))"
    by (rule clip_def)
  from assms have "calculate_withdrawal a gwb rate age years =
      Inr \<lparr>withdrawal_amount = gwb * rate * calculate_utilization a age years,
           utilization_rate = calculate_utilization a age years,
           max_allowed = gwb * rate\<rparr>"
    by (simp add: calculate_withdrawal_def Let_def)
  then show ?thesis
    unfolding u c .
qed

text \<open>
  With the default assumptions (base 0.70, age sensitivity 0.01, minimum 0.30, maximum
  1): at age 70 in the second withdrawal year the utilization 0.8 * 0.75 = 0.6 lies
  inside the bounds; at age 100 after five years 0.70 + 0.35 = 1.05 is cut to 1. With a
  base of 0.40, in the first withdrawal year at age 60, 0.7 * 0.40 = 0.28 is raised to
  the minimum 0.30.
\<close>

theorem calculate_withdrawal_formula_witness:
  "calculate_withdrawal default_withdrawal 100000 (5 / 100) 70 1 =
     Inr \<lparr>withdrawal_amount = 3000, utilization_rate = 6 / 10, max_allowed = 5000\<rparr>
   \<and> calculate_withdrawal default_withdrawal 100000 (5 / 100) 100 5 =
     Inr \<lparr>withdrawal_amount = 5000, utilization_rate = 1, max_allowed = 5000\<rparr>
   \<and> calculate_withdrawal cautious_withdrawal 100000 (5 / 100) 60 0 =
     Inr \<lparr>withdrawal_amount = 1500, utilization_rate = 3 / 10, max_allowed = 5000\<rparr>"
proof -
  have g: "(0::real) \<le> 100000" and r0: "(0::real) \<le> 5 / 100" and r1: "(5 / 100 :: real) \<le> 1"
    and y1: "(0::int) \<le> 1" and y5: "(0::int) \<le> 5" and y0: "(0::int) \<le> 0"
    by simp_all
  show ?thesis
    using calculate_withdrawal_formula [OF g r0 r1 y1, of default_withdrawal 70]
      calculate_withdrawal_formula [OF g r0 r1 y5, of default_withdrawal 100]
      calculate_withdrawal_formula [OF g r0 r1 y0, of cautious_withdrawal 60]
    by (simp add: default_withdrawal_def cautious_withdrawal_def)
qed

section \<open>Survival probabilities\<close>

lemma survival_fold_Suc:
  "fold (survival_step ls dt) [0..<Suc k] init =
     (let s = fold (survival_step ls dt) [0..<k] init
      in s[k + 1 := s ! k * max (1 - ls ! k * dt) 0])"
  by (simp add: survival_step_def Let_def)

lemma survival_prefix:
  fixes ls :: "real list" and dt :: real
  assumes "k \<le> n"
  defines "s \<equiv> fold (survival_step ls dt) [0..<k] (replicate (n + 1) 1)"
  shows "length s = n + 1
         \<and> (\<forall>i. k < i \<and> i \<le> n \<longrightarrow> s ! i = 1)
         \<and> s ! 0 = 1
         \<and> (\<forall>i < k. s ! (i + 1) = s ! i * max (1 - ls ! i * dt) 0)"
  using assms(1) unfolding s_def
proof (induction k)
  case 0
  then show ?case by (simp del: replicate.simps)
next
  case (Suc k)
  define s where "s = fold (survival_step ls dt) [0..<k] (replicate (n + 1) 1)"
  from Suc have ih: "length s = n + 1" "\<forall>i. k < i \<and> i \<le> n \<longrightarrow> s ! i = 1" "s ! 0 = 1"
    "\<forall>i < k. s ! (i + 1) = s ! i * max (1 - ls ! i * dt) 0"
    unfolding s_def by simp_all
  define v where "v = s ! k * max (1 - ls ! k * dt) 0"
  have step: "fold (survival_step ls dt) [0..<Suc k] (replicate (n + 1) 1) = s[Suc k := v]"
    unfolding s_def v_def survival_fold_Suc Let_def by simp
  from ih(1) Suc.prems have k: "Suc k < length s" by simp
  have a: "length (s[Suc k := v]) = n + 1"
    using ih(1) by simp
  have b: "\<forall>i. Suc k < i \<and> i \<le> n \<longrightarrow> s[Suc k := v] ! i = 1"
    using ih(2) by simp
  have c: "s[Suc k := v] ! 0 = 1"
    using ih(3) by simp
  have d: "s[Suc k := v] ! (i + 1) = s[Suc k := v] ! i * max (1 - ls ! i * dt) 0"
    if "i < Suc k" for i
  proof (cases "i = k")
    case True
    with k show ?thesis by (simp add: v_def)
  next
    case False
    with that have "i < k" by simp
    with ih(4) show ?thesis by simp
  qed
  from a b c d show ?case
    unfolding step by blast
qed

lemma survival_bounds:
  fixes ls :: "real list" and dt :: real
  assumes "k \<le> n" and "\<forall>i < n. 0 \<le> ls ! i * dt"
  defines "s \<equiv> fold (survival_step ls dt) [0..<k] (replicate (n + 1) 1)"
  shows "\<forall>i \<le> n. 0 \<le> s ! i \<and> s ! i \<le> 1"
  using assms(1) unfolding s_def
proof (induction k)
  case 0
  then show ?case by (simp del: replicate.simps)
next
  case (Suc k)
  define s where "s = fold (survival_step ls dt) [0..<k] (replicate (n + 1) 1)"
  let ?f = "max (1 - ls ! k * dt) 0"
  from Suc have ih: "\<forall>i \<le> n. 0 \<le> s ! i \<and> s ! i \<le> 1"
    unfolding s_def by simp
  from Suc.prems survival_prefix [of k n ls dt] have len: "length s = n + 1"
    unfolding s_def by simp
  from Suc.prems assms(2) have f: "0 \<le> ?f" "?f \<le> 1" by auto
  from ih Suc.prems have sk: "0 \<le> s ! k" "s ! k \<le> 1" by auto
  from sk f have new: "0 \<le> s ! k * ?f" "s ! k * ?f \<le> 1"
    by (simp_all add: mult_le_one)
  have step: "fold (survival_step ls dt) [0..<Suc k] (replicate (n + 1) 1)
              = s[Suc k := s ! k * ?f]"
    unfolding s_def survival_fold_Suc Let_def by simp
  have "0 \<le> s[Suc k := s ! k * ?f] ! i \<and> s[Suc k := s ! k * ?f] ! i \<le> 1" if "i \<le> n" for i
  proof (cases "i = Suc k")
    case True
    with that len new show ?thesis by simp
  next
    case False
    with that ih show ?thesis by simp
  qed
  then show ?case
    unfolding step by blast
qed

text \<open>
  C10. For lapse rates that are not negative and a time step that is not negative, the
  survival curve has one more entry than there are lapse rates, starts at 1, never
  increases, and stays between 0 and 1; each entry is the one before it times the
  probability of staying, 1 - lapse * dt cut off at 0, so a step whose lapse * dt exceeds
  1 brings survival to 0 and not below.
\<close>

theorem survival_probability_curve:
  assumes rates: "\<forall>x \<in> set lapse_rates. 0 \<le> x" and dt: "0 \<le> dt"
  shows "length (calculate_survival_probability lapse_rates dt) = length lapse_rates + 1
         \<and> calculate_survival_probability lapse_rates dt ! 0 = 1
         \<and> (\<forall>i j. i \<le> j \<and> j \<le> length lapse_rates \<longrightarrow>
                calculate_survival_probability lapse_rates dt ! j \<le> calculate_survival_probability lapse_rates dt ! i)
         \<and> (\<forall>x \<in> set (calculate_survival_probability lapse_rates dt). 0 \<le> x \<and> x \<le> 1)
         \<and> (\<forall>i < length lapse_rates.
                calculate_survival_probability lapse_rates dt ! (i + 1) =
                calculate_survival_probability lapse_rates dt ! i * max (1 - lapse_rates ! i * dt) 0)"
proof -
  let ?n = "length lapse_rates"
  define s where "s = calculate_survival_probability lapse_rates dt"
  have s: "s = fold (survival_step lapse_rates dt) [0..<?n] (replicate (?n + 1) 1)"
    by (simp add: s_def calculate_survival_probability_def Let_def)
  from rates dt have nonneg: "\<forall>i < ?n. 0 \<le> lapse_rates ! i * dt" by simp
  from survival_prefix [of ?n ?n lapse_rates dt]
  have len: "length s = ?n + 1" and first: "s ! 0 = 1"
    and rec: "\<forall>i < ?n. s ! (i + 1) = s ! i * max (1 - lapse_rates ! i * dt) 0"
    unfolding s by simp_all
  from survival_bounds [of ?n ?n lapse_rates dt, OF _ nonneg]
  have bnd: "\<forall>i \<le> ?n. 0 \<le> s ! i \<and> s ! i \<le> 1"
    unfolding s by simp
  have adj: "s ! (i + 1) \<le> s ! i" if "i < ?n" for i
  proof -
    from that nonneg have "max (1 - lapse_rates ! i * dt) 0 \<le> 1" by auto
    moreover from that bnd have "0 \<le> s ! i" by simp
    ultimately have "s ! i * max (1 - lapse_rates ! i * dt) 0 \<le> s ! i"
      by (simp add: mult_left_le)
    with rec that show ?thesis by simp
  qed
  have mono: "s ! j \<le> s ! i" if "i \<le> j" "j \<le> ?n" for i j
    using that
  proof (induction j)
    case 0
    then show ?case by simp
  next
    case (Suc j)
    show ?case
    proof (cases "i = Suc j")
      case True
      then show ?thesis by simp
    next
      case False
      with Suc.prems have "i \<le> j" "j < ?n" by simp_all
      with Suc.IH adj [of j] show ?thesis by simp
    qed
  qed
  have mem: "0 \<le> x \<and> x \<le> 1" if "x \<in> set s" for x
  proof -
    from that obtain i where "i < length s" "x = s ! i" by (auto simp: in_set_conv_nth)
    with len bnd show ?thesis by simp
  qed
  from len first mono mem rec show ?thesis unfolding s_def by blast
qed

theorem survival_probability_curve_witness:
  "calculate_survival_probability [1 / 2, 3, 1 / 4] 1 = [1, 1 / 2, 0, 0]
   \<and> length (calculate_survival_probability [1 / 2, 3, 1 / 4] 1) = 4"
proof -
  have r: "\<forall>x \<in> set [1 / 2, 3, 1 / 4 :: real]. 0 \<le> x" and d: "(0::real) \<le> 1"
    by simp_all
  have v: "calculate_survival_probability [1 / 2, 3, 1 / 4] 1 = [1, 1 / 2, 0, 0]"
    by (simp add: calculate_survival_probability_def survival_step_def Let_def upt_rec)
  from survival_probability_curve [OF r d] v show ?thesis by simp
qed

section \<open>Correlated shocks and floored rates\<close>

lemma standard_normal_shape:
  "length (standard_normal draw n t) = n"
  "i < n \<Longrightarrow> length (standard_normal draw n t ! i) = t"
  "i < n \<Longrightarrow> j < t \<Longrightarrow> standard_normal draw n t ! i ! j = draw i j"
  by (simp_all add: standard_normal_def)

lemma shape_standard_normal:
  "shape (standard_normal draw n t) = (n, if n = 0 then 0 else t)"
proof (cases n)
  case 0
  then show ?thesis by (simp add: shape_def standard_normal_def)
next
  case (Suc m)
  then have "[0..<n] = 0 # [Suc 0..<n]"
    by (simp add: upt_conv_Cons)
  with Suc show ?thesis
    by (simp add: shape_def standard_normal_def)
qed

lemma vasicek_fold_Suc:
  "fold (vasicek_step params shocks) [0..<Suc k] init =
     vasicek_step params shocks k (fold (vasicek_step params shocks) [0..<k] init)"
  by simp

lemma vasicek_prefix:
  fixes shocks :: matrix and params :: VasicekParams and r0 :: real
  assumes rows: "length shocks = n" and k: "k \<le> T"
  defines "st \<equiv> fold (vasicek_step params shocks) [0..<k] (replicate n (replicate T 0), replicate n r0)"
  shows "length (fst st) = n \<and> length (snd st) = n
         \<and> (\<forall>i < n. length (fst st ! i) = T)
         \<and> (\<forall>i < n. \<forall>t < k. fst st ! i ! t =
                max (rate_before r0 (fst st) i t
                     + kappa params * (theta params - rate_before r0 (fst st) i t)
                     + rate_sigma params * (shocks ! i ! t)) 0)
         \<and> (\<forall>i < n. snd st ! i = rate_before r0 (fst st) i k)"
  using k unfolding st_def
proof (induction k)
  case 0
  then show ?case by (simp add: rate_before_def)
next
  case (Suc k)
  define R where "R = fst (fold (vasicek_step params shocks) [0..<k] (replicate n (replicate T 0), replicate n r0))"
  define P where "P = snd (fold (vasicek_step params shocks) [0..<k] (replicate n (replicate T 0), replicate n r0))"
  define f where "f = (\<lambda>r z. r + kappa params * (theta params - r) + rate_sigma params * z)"
  from Suc have ih: "length R = n" "length P = n" "\<forall>i < n. length (R ! i) = T"
    "\<forall>i < n. \<forall>t < k. R ! i ! t = max (f (rate_before r0 R i t) (shocks ! i ! t)) 0"
    "\<forall>i < n. P ! i = rate_before r0 R i k"
    unfolding R_def P_def f_def by simp_all
  define F where "F = map (\<lambda>r. max r 0) (map2 f P (map (\<lambda>row. row ! k) shocks))"
  define R' where "R' = map2 (\<lambda>row r. row[k := r]) R F"
  have step: "fold (vasicek_step params shocks) [0..<Suc k] (replicate n (replicate T 0), replicate n r0)
              = (R', F)"
    unfolding vasicek_fold_Suc
    by (simp add: vasicek_step_def R_def P_def F_def R'_def f_def Let_def split: prod.splits)
  from ih rows have lenF: "length F = n" by (simp add: F_def)
  from ih rows have F: "F ! i = max (f (P ! i) (shocks ! i ! k)) 0" if "i < n" for i
    using that by (simp add: F_def)
  from ih lenF have lenR': "length R' = n" by (simp add: R'_def)
  from ih lenF have R': "R' ! i = (R ! i)[k := F ! i]" if "i < n" for i
    using that by (simp add: R'_def)
  from Suc.prems have kT: "k < T" by simp
  have before: "rate_before r0 R' i t = rate_before r0 R i t" if "i < n" "t \<le> k" for i t
    using that R' [of i] ih(3) by (auto simp: rate_before_def)
  have rows': "\<forall>i < n. length (R' ! i) = T"
    using R' ih(3) by simp
  have rec: "R' ! i ! t = max (f (rate_before r0 R' i t) (shocks ! i ! t)) 0"
    if "i < n" "t < Suc k" for i t
  proof (cases "t = k")
    case True
    with that kT ih(3) ih(5) R' [of i] F [of i] before [of i k] show ?thesis by simp
  next
    case False
    with that have "t < k" by simp
    with that ih(4) R' [of i] before [of i t] show ?thesis by simp
  qed
  have prev: "F ! i = rate_before r0 R' i (Suc k)" if "i < n" for i
    using that kT ih(3) R' [of i] by (simp add: rate_before_def)
  from lenR' lenF rows' rec prev show ?case
    unfolding step f_def by simp
qed


lemma vasicek_paths_standard_normal:
  fixes params :: VasicekParams and r0 :: real and draw :: "nat \<Rightarrow> nat \<Rightarrow> real"
    and n :: nat and T :: nat
  defines "paths \<equiv> generate_vasicek_paths r0 params (standard_normal draw n T)"
  shows "length paths = n
         \<and> (\<forall>i < n. length (paths ! i) = T)
         \<and> (\<forall>i < n. \<forall>t < T. paths ! i ! t =
                max (rate_before r0 paths i t
                     + kappa params * (theta params - rate_before r0 paths i t)
                     + rate_sigma params * draw i t) 0)"
proof (cases "n = 0")
  case True
  then show ?thesis
    by (simp add: paths_def generate_vasicek_paths_def shape_standard_normal)
next
  case False
  then have p: "paths = fst (fold (vasicek_step params (standard_normal draw n T)) [0..<T]
                  (replicate n (replicate T 0), replicate n r0))"
    by (simp add: paths_def generate_vasicek_paths_def shape_standard_normal Let_def)
  have len: "length (standard_normal draw n T) = n"
    by (rule standard_normal_shape)
  from vasicek_prefix [where params = params and ?r0.0 = r0 and k = T and T = T, OF len order_refl]
  show ?thesis
    unfolding p [symmetric] by (simp add: standard_normal_shape)
qed

lemma mat_ops_nth:
  "i < length a \<Longrightarrow> j < length (a ! i) \<Longrightarrow> mat_scale c a ! i ! j = c * a ! i ! j"
  "i < length a \<Longrightarrow> i < length b \<Longrightarrow> j < length (a ! i) \<Longrightarrow> j < length (b ! i) \<Longrightarrow>
     mat_add a b ! i ! j = a ! i ! j + b ! i ! j"
  by (simp_all add: mat_scale_def mat_add_def)

lemma mat_ops_length:
  "length (mat_scale c a) = length a"
  "i < length a \<Longrightarrow> length (mat_scale c a ! i) = length (a ! i)"
  "length (mat_add a b) = min (length a) (length b)"
  "i < length a \<Longrightarrow> i < length b \<Longrightarrow> length (mat_add a b ! i) = min (length (a ! i)) (length (b ! i))"
  by (simp_all add: mat_scale_def mat_add_def)

lemma correlated_shocks_cells:
  assumes "generate_correlated_shocks self correlation draw1 draw2 = (rate_shocks, equity_shocks)"
  shows "rate_shocks = standard_normal draw1 (gen_n_scenarios self) (gen_projection_years self)"
    and "length equity_shocks = gen_n_scenarios self"
    and "i < gen_n_scenarios self \<Longrightarrow> length (equity_shocks ! i) = gen_projection_years self"
    and "i < gen_n_scenarios self \<Longrightarrow> t < gen_projection_years self \<Longrightarrow>
           equity_shocks ! i ! t =
             correlation * draw1 i t + sqrt (1 - correlation ^ 2) * draw2 i t"
  using assms
  by (auto simp: generate_correlated_shocks_def Let_def mat_ops_nth mat_ops_length standard_normal_shape)

lemma build_scenarios_ok:
  assumes "\<forall>i \<in> set idx. length (rate_paths ! i) = length (equity_paths ! i)"
  shows "build_scenarios rate_paths equity_paths idx =
           Inr (map (\<lambda>i. \<lparr>rates = rate_paths ! i, equity_returns = equity_paths ! i, scenario_id = i\<rparr>) idx)"
  using assms by (induction idx) (simp_all add: and_then_def economic_scenario_def)


lemma gbm_returns_cells:
  "length (generate_gbm_returns params shocks) = length shocks"
  "i < length shocks \<Longrightarrow> length (generate_gbm_returns params shocks ! i) = length (shocks ! i)"
  "i < length shocks \<Longrightarrow> t < length (shocks ! i) \<Longrightarrow>
     generate_gbm_returns params shocks ! i ! t =
       exp ((mu params - (1 / 2) * equity_sigma params ^ 2) + equity_sigma params * (shocks ! i ! t)) - 1"
  by (simp_all add: generate_gbm_returns_def)

text \<open>
  C8. For every initial rate, Vasicek parameters, correlation between -1 and 1 and shock
  draw z1, z2, scenario generation returns; the rate shock is z1 and the equity shock is
  correlation * z1 + sqrt(1 - correlation^2) * z2; every rate path follows
  r(t+1) = max(0, r(t) + kappa * (theta - r(t)) + sigma * z1), starting from the initial
  rate; and every rate of every generated scenario is at least 0.
\<close>

theorem correlated_shocks_and_floored_rates:
  assumes lo: "- 1 \<le> correlation" and hi: "correlation \<le> 1"
  shows "\<exists>ag43.
           generate_ag43_scenarios self r0 rate_params equity_params correlation draw1 draw2 = Inr ag43
         \<and> length (scenarios ag43) = gen_n_scenarios self
         \<and> (\<forall>i < gen_n_scenarios self. \<forall>t < gen_projection_years self.
               fst (generate_correlated_shocks self correlation draw1 draw2) ! i ! t = draw1 i t
             \<and> snd (generate_correlated_shocks self correlation draw1 draw2) ! i ! t =
                 correlation * draw1 i t + sqrt (1 - correlation ^ 2) * draw2 i t
             \<and> length (rates (scenarios ag43 ! i)) = gen_projection_years self
             \<and> rates (scenarios ag43 ! i) ! t =
                 max ((if t = 0 then r0 else rates (scenarios ag43 ! i) ! (t - 1))
                      + kappa rate_params
                        * (theta rate_params - (if t = 0 then r0 else rates (scenarios ag43 ! i) ! (t - 1)))
                      + rate_sigma rate_params * draw1 i t) 0)
         \<and> (\<forall>s \<in> set (scenarios ag43). \<forall>r \<in> set (rates s). 0 \<le> r)"
proof -
  let ?n = "gen_n_scenarios self" and ?T = "gen_projection_years self"
  obtain rs es where shocks: "generate_correlated_shocks self correlation draw1 draw2 = (rs, es)"
    by (cases "generate_correlated_shocks self correlation draw1 draw2")
  note cells = correlated_shocks_cells [OF shocks]
  define paths where "paths = generate_vasicek_paths r0 rate_params rs"
  define returns where "returns = generate_gbm_returns equity_params es"
  from vasicek_paths_standard_normal [of r0 rate_params draw1 ?n ?T]
  have plen: "length paths = ?n"
    and prow: "\<And>i. i < ?n \<Longrightarrow> length (paths ! i) = ?T"
    and pcell: "\<And>i t. i < ?n \<Longrightarrow> t < ?T \<Longrightarrow> paths ! i ! t =
                max (rate_before r0 paths i t
                     + kappa rate_params * (theta rate_params - rate_before r0 paths i t)
                     + rate_sigma rate_params * draw1 i t) 0"
    unfolding paths_def cells(1) by simp_all
  from cells(2,3) have rrow: "\<And>i. i < ?n \<Longrightarrow> length (returns ! i) = ?T"
    by (simp add: returns_def gbm_returns_cells)
  define built where
    "built = map (\<lambda>i. \<lparr>rates = paths ! i, equity_returns = returns ! i, scenario_id = i\<rparr>) [0..<?n]"
  have "\<forall>i \<in> set [0..<?n]. length (paths ! i) = length (returns ! i)"
    using prow rrow by simp
  then have b: "build_scenarios paths returns [0..<?n] = Inr built"
    unfolding built_def by (rule build_scenarios_ok)
  define ag43 where
    "ag43 = \<lparr>scenarios = built, n_scenarios = ?n, projection_years = ?T\<rparr>"
  from lo hi shocks b have run:
    "generate_ag43_scenarios self r0 rate_params equity_params correlation draw1 draw2 = Inr ag43"
    by (simp add: generate_ag43_scenarios_def Let_def paths_def returns_def and_then_def ag43_def)
  have sc: "scenarios ag43 = built" by (simp add: ag43_def)
  have len: "length (scenarios ag43) = ?n" by (simp add: sc built_def)
  have rts: "rates (scenarios ag43 ! i) = paths ! i" if "i < ?n" for i
    using that by (simp add: sc built_def)
  have per: "fst (generate_correlated_shocks self correlation draw1 draw2) ! i ! t = draw1 i t
             \<and> snd (generate_correlated_shocks self correlation draw1 draw2) ! i ! t =
                 correlation * draw1 i t + sqrt (1 - correlation ^ 2) * draw2 i t
             \<and> length (rates (scenarios ag43 ! i)) = ?T
             \<and> rates (scenarios ag43 ! i) ! t =
                 max ((if t = 0 then r0 else rates (scenarios ag43 ! i) ! (t - 1))
                      + kappa rate_params
                        * (theta rate_params - (if t = 0 then r0 else rates (scenarios ag43 ! i) ! (t - 1)))
                      + rate_sigma rate_params * draw1 i t) 0"
    if "i < ?n" "t < ?T" for i t
    using that cells(4) [of i t] prow [of i] pcell [of i t] rts [of i]
    by (simp add: shocks cells(1) standard_normal_shape rate_before_def)
  have nonneg: "0 \<le> r" if "s \<in> set (scenarios ag43)" "r \<in> set (rates s)" for s r
  proof -
    from that(1) len obtain i where i: "i < ?n" "s = scenarios ag43 ! i"
      by (auto simp: in_set_conv_nth)
    with that(2) rts prow obtain t where t: "t < ?T" "r = paths ! i ! t"
      by (auto simp: in_set_conv_nth)
    with i pcell [of i t] show ?thesis by simp
  qed
  from run len per nonneg show ?thesis by blast
qed

lemma sqrt_sixteen_twentyfifths: "sqrt (1 - (3 / 5) ^ 2) = 4 / 5"
proof -
  have "1 - (3 / 5 :: real) ^ 2 = (4 / 5) ^ 2" by (simp add: power2_eq_square)
  then have "sqrt (1 - (3 / 5) ^ 2) = \<bar>4 / 5 :: real\<bar>" by (simp only: real_sqrt_abs)
  then show ?thesis by simp
qed


lemma vasicek_paths_example:
  "generate_vasicek_paths (4 / 100) default_vasicek (standard_normal falling_draw 2 2) = [[0, 0], [1 / 20, 29 / 500]]"
  by (simp add: generate_vasicek_paths_def shape_def standard_normal_def vasicek_step_def
     default_vasicek_def falling_draw_def Let_def upt_rec)

lemma correlated_shocks_example:
  "generate_correlated_shocks two_paths (3 / 5) falling_draw flat_draw =
   ([[- 10, - 10], [1, 1]], [[- 2, - 2], [23 / 5, 23 / 5]])"
  by (simp add: generate_correlated_shocks_def two_paths_def standard_normal_def mat_add_def mat_scale_def
     falling_draw_def flat_draw_def Let_def upt_rec sqrt_sixteen_twentyfifths)

theorem correlated_shocks_and_floored_rates_witness:
  "\<exists>ag43.
     generate_ag43_scenarios two_paths (4 / 100) default_vasicek default_equity (3 / 5)
       falling_draw flat_draw = Inr ag43
     \<and> length (scenarios ag43) = 2
     \<and> snd (generate_correlated_shocks two_paths (3 / 5) falling_draw flat_draw) ! 1 ! 0 = 23 / 5
     \<and> rates (scenarios ag43 ! 0) ! 0 = 0
     \<and> rates (scenarios ag43 ! 1) ! 0 = 1 / 20"
proof -
  have lo: "- 1 \<le> (3 / 5 :: real)" and hi: "(3 / 5 :: real) \<le> 1" by simp_all
  from correlated_shocks_and_floored_rates [OF lo hi, of two_paths "4 / 100" default_vasicek
      default_equity falling_draw flat_draw]
  obtain ag43 where run: "generate_ag43_scenarios two_paths (4 / 100) default_vasicek default_equity (3 / 5)
       falling_draw flat_draw = Inr ag43"
    and len: "length (scenarios ag43) = gen_n_scenarios two_paths"
    and cells: "\<forall>i < gen_n_scenarios two_paths. \<forall>t < gen_projection_years two_paths.
               fst (generate_correlated_shocks two_paths (3 / 5) falling_draw flat_draw) ! i ! t = falling_draw i t
             \<and> snd (generate_correlated_shocks two_paths (3 / 5) falling_draw flat_draw) ! i ! t =
                 (3 / 5) * falling_draw i t + sqrt (1 - (3 / 5) ^ 2) * flat_draw i t
             \<and> length (rates (scenarios ag43 ! i)) = gen_projection_years two_paths
             \<and> rates (scenarios ag43 ! i) ! t =
                 max ((if t = 0 then 4 / 100 else rates (scenarios ag43 ! i) ! (t - 1))
                      + kappa default_vasicek
                        * (theta default_vasicek - (if t = 0 then 4 / 100 else rates (scenarios ag43 ! i) ! (t - 1)))
                      + rate_sigma default_vasicek * falling_draw i t) 0"
    by blast
  have two: "gen_n_scenarios two_paths = 2" "gen_projection_years two_paths = 2"
    by (simp_all add: two_paths_def)
  from cells two have c10: "snd (generate_correlated_shocks two_paths (3 / 5) falling_draw flat_draw) ! 1 ! 0 = 23 / 5"
    and r00: "rates (scenarios ag43 ! 0) ! 0 = 0"
    and r10: "rates (scenarios ag43 ! 1) ! 0 = 1 / 20"
    by (simp_all add: sqrt_sixteen_twentyfifths falling_draw_def flat_draw_def default_vasicek_def)
  from run len two c10 r00 r10 show ?thesis by simp
qed

section \<open>Fair GLWB fee\<close>

lemma bisection_trace_Cons:
  assumes rest: "bisection_trace target_cost tolerance (m + step_sign target_cost g * w / 4) (w / 2) k res new"
      and fee: "probe_fee p = m" and out: "snd p = Inr g"
      and far: "\<not> \<bar>g - target_cost\<bar> < tolerance"
  shows "bisection_trace target_cost tolerance m w (Suc k) res (p # new)"
proof -
  let ?s = "step_sign target_cost"
  from rest have len: "length new \<le> k"
    and first: "new \<noteq> [] \<Longrightarrow> probe_fee (new ! 0) = m + ?s g * w / 4"
    and steps: "\<And>j. Suc j < length new \<Longrightarrow>
         \<exists>h. snd (new ! j) = Inr h \<and> \<not> \<bar>h - target_cost\<bar> < tolerance
            \<and> probe_fee (new ! Suc j) = probe_fee (new ! j) + ?s h * (w / 2) / 2 ^ (j + 2)"
    and final: "case res of
         Inl e \<Rightarrow> new \<noteq> [] \<and> snd (last new) = Inl e
       | Inr fee \<Rightarrow>
           (new \<noteq> [] \<and> fee = probe_fee (last new)
              \<and> (\<exists>h. snd (last new) = Inr h \<and> \<bar>h - target_cost\<bar> < tolerance))
         \<or> (length new = k
              \<and> (if new = [] then fee = m + ?s g * w / 4
                  else \<exists>h. snd (last new) = Inr h \<and> \<not> \<bar>h - target_cost\<bar> < tolerance
                         \<and> fee = probe_fee (last new) + ?s h * (w / 2) / 2 ^ (length new + 1)))"
    unfolding bisection_trace_def by blast+
  have a: "length (p # new) \<le> Suc k" using len by simp
  have b: "probe_fee ((p # new) ! 0) = m" using fee by simp
  have c: "\<exists>h. snd ((p # new) ! j) = Inr h \<and> \<not> \<bar>h - target_cost\<bar> < tolerance
            \<and> probe_fee ((p # new) ! Suc j) =
                probe_fee ((p # new) ! j) + ?s h * w / 2 ^ (j + 2)"
    if "Suc j < length (p # new)" for j
  proof (cases j)
    case 0
    with that have "new \<noteq> []" by auto
    from first [OF this] 0 fee out far show ?thesis by simp
  next
    case (Suc i)
    with that have "Suc i < length new" by simp
    from steps [OF this] Suc show ?thesis by simp
  qed
  have d: "case res of
         Inl e \<Rightarrow> p # new \<noteq> [] \<and> snd (last (p # new)) = Inl e
       | Inr fee \<Rightarrow>
           (p # new \<noteq> [] \<and> fee = probe_fee (last (p # new))
              \<and> (\<exists>h. snd (last (p # new)) = Inr h \<and> \<bar>h - target_cost\<bar> < tolerance))
         \<or> (length (p # new) = Suc k
              \<and> (if p # new = [] then fee = m
                  else \<exists>h. snd (last (p # new)) = Inr h \<and> \<not> \<bar>h - target_cost\<bar> < tolerance
                         \<and> fee = probe_fee (last (p # new))
                                 + ?s h * w / 2 ^ (length (p # new) + 1)))"
  proof (cases res)
    case (Inl e)
    with final show ?thesis by simp
  next
    case (Inr fee)
    show ?thesis
    proof (cases "new = []")
      case True
      with final Inr fee out far show ?thesis by auto
    next
      case False
      with final Inr show ?thesis by auto
    qed
  qed
  from a b c d show ?thesis
    unfolding bisection_trace_def by blast
qed


lemma probe_fee_probe_call:
  "probe_fee (probe_call self premium age r sigma max_age fee, out) = fee"
  by (simp add: probe_fee_def probe_call_def)

lemma bisection_Suc:
  "bisection run self premium age r sigma max_age target_cost tolerance (Suc k) low high runs =
     (let mid = (low + high) / 2;
          call = probe_call self premium age r sigma max_age mid;
          p = (call, run (length runs) call)
      in case snd p of
           Inl e \<Rightarrow> (Inl e, runs @ [p])
         | Inr g \<Rightarrow>
             if \<bar>g - target_cost\<bar> < tolerance then (Inr mid, runs @ [p])
             else if g - target_cost > 0
             then bisection run self premium age r sigma max_age target_cost tolerance k mid high (runs @ [p])
             else bisection run self premium age r sigma max_age target_cost tolerance k low mid (runs @ [p]))"
  by (simp add: cost_at_fee_def and_then_def Let_def split: sum.splits)

lemma bisection_follows_trace:
  assumes "bisection run self premium age r sigma max_age target_cost tolerance k low high runs
             = (res, runs')"
  shows "\<exists>new. runs' = runs @ new
           \<and> bisection_trace target_cost tolerance ((low + high) / 2) (high - low) k res new
           \<and> (\<forall>j < length new.
                 fst (new ! j) = probe_call self premium age r sigma max_age (probe_fee (new ! j))
               \<and> snd (new ! j) = run (length runs + j) (fst (new ! j)))"
  using assms
proof (induction k arbitrary: low high runs)
  case 0
  then have "runs' = runs @ []" "bisection_trace target_cost tolerance ((low + high) / 2) (high - low) 0 res []"
    by (auto simp: bisection_trace_def)
  then show ?case by (intro exI [of _ "[]"]) simp
next
  case (Suc k)
  define mid where "mid = (low + high) / 2"
  define call where "call = probe_call self premium age r sigma max_age mid"
  define p where "p = (call, run (length runs) call)"
  have fee: "probe_fee p = mid"
    by (simp add: p_def call_def probe_fee_probe_call)
  have wf: "fst p = probe_call self premium age r sigma max_age (probe_fee p)
            \<and> snd p = run (length runs + 0) (fst p)"
    using fee by (simp add: p_def call_def)
  note eq = Suc.prems [unfolded bisection_Suc Let_def, folded mid_def, folded call_def, folded p_def]
  show ?case
  proof (cases "snd p")
    case (Inl e)
    with eq have r: "res = Inl e" "runs' = runs @ [p]" by simp_all
    from Inl fee r have "bisection_trace target_cost tolerance mid (high - low) (Suc k) res [p]"
      by (simp add: bisection_trace_def)
    with r wf show ?thesis
      unfolding mid_def by (intro exI [of _ "[p]"]) simp
  next
    case (Inr g)
    show ?thesis
    proof (cases "\<bar>g - target_cost\<bar> < tolerance")
      case True
      with Inr eq have r: "res = Inr mid" "runs' = runs @ [p]" by simp_all
      from Inr True fee r have "bisection_trace target_cost tolerance mid (high - low) (Suc k) res [p]"
        by (simp add: bisection_trace_def)
      with r wf show ?thesis
        unfolding mid_def by (intro exI [of _ "[p]"]) simp
    next
      case False
      define low' where "low' = (if g - target_cost > 0 then mid else low)"
      define high' where "high' = (if g - target_cost > 0 then high else mid)"
      from Inr False eq
      have rec: "bisection run self premium age r sigma max_age target_cost tolerance k low' high' (runs @ [p])
                   = (res, runs')"
        by (simp add: low'_def high'_def split: if_splits)
      from Suc.IH [OF rec] obtain new where
        new: "runs' = (runs @ [p]) @ new"
        and tr: "bisection_trace target_cost tolerance ((low' + high') / 2) (high' - low') k res new"
        and st: "\<forall>j < length new.
                 fst (new ! j) = probe_call self premium age r sigma max_age (probe_fee (new ! j))
               \<and> snd (new ! j) = run (length (runs @ [p]) + j) (fst (new ! j))"
        by blast
      have m: "(low' + high') / 2 = mid + step_sign target_cost g * (high - low) / 4"
        and w: "high' - low' = (high - low) / 2"
        by (simp_all add: low'_def high'_def mid_def step_sign_def field_simps)
      from tr have "bisection_trace target_cost tolerance mid (high - low) (Suc k) res (p # new)"
        unfolding m w using fee Inr False by (rule bisection_trace_Cons)
      moreover from new have "runs' = runs @ (p # new)" by simp
      moreover have "\<forall>j < length (p # new).
                 fst ((p # new) ! j) = probe_call self premium age r sigma max_age (probe_fee ((p # new) ! j))
               \<and> snd ((p # new) ! j) = run (length runs + j) (fst ((p # new) ! j))"
      proof (intro allI impI)
        fix j assume "j < length (p # new)"
        then show "fst ((p # new) ! j) = probe_call self premium age r sigma max_age (probe_fee ((p # new) ! j))
               \<and> snd ((p # new) ! j) = run (length runs + j) (fst ((p # new) ! j))"
          using wf st by (cases j) simp_all
      qed
      ultimately show ?thesis
        unfolding mid_def by blast
    qed
  qed
qed


lemma bisection_within_bracket:
  assumes "bisection run self premium age r sigma max_age target_cost tolerance k low high runs
             = (res, runs')"
      and "low \<le> high"
  shows "(\<forall>p \<in> set runs'. p \<in> set runs \<or> low \<le> probe_fee p \<and> probe_fee p \<le> high)
         \<and> (\<forall>fee. res = Inr fee \<longrightarrow> low \<le> fee \<and> fee \<le> high)"
  using assms
proof (induction k arbitrary: low high runs)
  case 0
  then show ?case by auto
next
  case (Suc k)
  define mid where "mid = (low + high) / 2"
  define call where "call = probe_call self premium age r sigma max_age mid"
  define p where "p = (call, run (length runs) call)"
  have fee: "probe_fee p = mid"
    by (simp add: p_def call_def probe_fee_probe_call)
  from Suc.prems(2) have mid: "low \<le> mid" "mid \<le> high"
    by (simp_all add: mid_def)
  note eq = Suc.prems(1) [unfolded bisection_Suc Let_def, folded mid_def, folded call_def, folded p_def]
  show ?case
  proof (cases "snd p")
    case (Inl e)
    with eq fee mid show ?thesis by auto
  next
    case (Inr g)
    show ?thesis
    proof (cases "\<bar>g - target_cost\<bar> < tolerance")
      case True
      with Inr eq fee mid show ?thesis by auto
    next
      case False
      define low' where "low' = (if g - target_cost > 0 then mid else low)"
      define high' where "high' = (if g - target_cost > 0 then high else mid)"
      from Inr False eq
      have rec: "bisection run self premium age r sigma max_age target_cost tolerance k low' high' (runs @ [p])
                   = (res, runs')"
        by (simp add: low'_def high'_def split: if_splits)
      from mid have sub: "low \<le> low'" "low' \<le> high'" "high' \<le> high"
        by (simp_all add: low'_def high'_def)
      from Suc.IH [OF rec sub(2)]
      have ih: "\<forall>q \<in> set runs'. q \<in> set (runs @ [p]) \<or> low' \<le> probe_fee q \<and> probe_fee q \<le> high'"
        and ihr: "\<forall>fee. res = Inr fee \<longrightarrow> low' \<le> fee \<and> fee \<le> high'"
        by blast+
      have "q \<in> set runs \<or> low \<le> probe_fee q \<and> probe_fee q \<le> high" if "q \<in> set runs'" for q
      proof -
        from ih that consider "q \<in> set runs" | "q = p" | "low' \<le> probe_fee q \<and> probe_fee q \<le> high'"
          by auto
        then show ?thesis
          using fee mid sub by cases auto
      qed
      moreover have "low \<le> f \<and> f \<le> high" if "res = Inr f" for f
        using ihr that sub by auto
      ultimately show ?thesis by blast
    qed
  qed
qed

lemma probe_call_fields:
  assumes "c = probe_call self premium age r sigma max_age fee"
  shows "n_paths (call_simulator c) = n_paths self div 2"
    and "seed (call_simulator c) = seed self"
    and "gwb_config (call_simulator c) = (gwb_config self)\<lparr>fee_rate := fee\<rparr>"
    and "call_premium c = premium" and "call_age c = age" and "call_r c = r"
    and "call_sigma c = sigma" and "call_max_age c = max_age"
  using assms by (simp_all add: probe_call_def)

text \<open>
  C1 (as amended). For every GWB configuration, premium, age, r and sigma, the fair fee
  solver bisects the fee between the bounds (by default 0.001 and 0.03): the first probe
  is the midpoint of the bounds and each later probe moves by half the step before, up
  when the probed guarantee cost exceeds the target and down otherwise, so with bounds
  given in order every probe and the result stay within them. It makes at most \<open>max_iterations\<close> probes,
  returns the fee of the first probe with |guarantee cost - target| < tolerance, and
  otherwise, after the last iteration, returns the midpoint of the last bracket; an
  error of a run ends the search with that error. Every probe runs the simulator with
  half the configured path count (N // 2), the solver's seed, the configuration with
  only the fee replaced, and the solver's arguments. The returned fee is not run again:
  for N of at least 1 no run at the full path count N is made.
\<close>

theorem fair_fee_bisection:
  assumes run: "calculate_fair_fee run self premium age r sigma max_age target_cost (lo, hi)
                  tolerance max_iterations = (res, runs)"
  shows "length runs \<le> nat max_iterations
       \<and> (\<forall>j < length runs.
             n_paths (call_simulator (fst (runs ! j))) = n_paths self div 2
           \<and> seed (call_simulator (fst (runs ! j))) = seed self
           \<and> gwb_config (call_simulator (fst (runs ! j)))
               = (gwb_config self)\<lparr>fee_rate := probe_fee (runs ! j)\<rparr>
           \<and> call_premium (fst (runs ! j)) = premium \<and> call_age (fst (runs ! j)) = age
           \<and> call_r (fst (runs ! j)) = r \<and> call_sigma (fst (runs ! j)) = sigma
           \<and> call_max_age (fst (runs ! j)) = max_age
           \<and> snd (runs ! j) = run j (fst (runs ! j)))
       \<and> (runs \<noteq> [] \<longrightarrow> probe_fee (runs ! 0) = (lo + hi) / 2)
       \<and> (\<forall>j. Suc j < length runs \<longrightarrow>
             (\<exists>g. snd (runs ! j) = Inr g \<and> \<not> \<bar>g - target_cost\<bar> < tolerance
                \<and> probe_fee (runs ! Suc j) =
                    probe_fee (runs ! j)
                    + (if g - target_cost > 0 then 1 else - 1) * (hi - lo) / 2 ^ (j + 2)))
       \<and> (case res of
             Inl e \<Rightarrow> runs \<noteq> [] \<and> snd (last runs) = Inl e
           | Inr fee \<Rightarrow>
               (runs \<noteq> [] \<and> fee = probe_fee (last runs)
                  \<and> (\<exists>g. snd (last runs) = Inr g \<and> \<bar>g - target_cost\<bar> < tolerance))
             \<or> (length runs = nat max_iterations
                  \<and> (if runs = [] then fee = (lo + hi) / 2
                      else \<exists>g. snd (last runs) = Inr g \<and> \<not> \<bar>g - target_cost\<bar> < tolerance
                             \<and> fee = probe_fee (last runs)
                                     + (if g - target_cost > 0 then 1 else - 1) * (hi - lo)
                                       / 2 ^ (length runs + 1))))
       \<and> (lo \<le> hi \<longrightarrow>
             (\<forall>p \<in> set runs. lo \<le> probe_fee p \<and> probe_fee p \<le> hi)
           \<and> (\<forall>fee. res = Inr fee \<longrightarrow> lo \<le> fee \<and> fee \<le> hi))
       \<and> (1 \<le> n_paths self \<longrightarrow>
             (\<forall>p \<in> set runs. n_paths (call_simulator (fst p)) \<noteq> n_paths self))"
proof -
  from run have b: "bisection run self premium age r sigma max_age target_cost tolerance
                      (nat max_iterations) lo hi [] = (res, runs)"
    by (simp add: calculate_fair_fee_def)
  from bisection_follows_trace [OF b]
  have tr: "bisection_trace target_cost tolerance ((lo + hi) / 2) (hi - lo) (nat max_iterations) res runs"
    and st: "\<And>j. j < length runs \<Longrightarrow>
               fst (runs ! j) = probe_call self premium age r sigma max_age (probe_fee (runs ! j))
             \<and> snd (runs ! j) = run j (fst (runs ! j))"
    by auto
  have calls: "n_paths (call_simulator (fst (runs ! j))) = n_paths self div 2
           \<and> seed (call_simulator (fst (runs ! j))) = seed self
           \<and> gwb_config (call_simulator (fst (runs ! j)))
               = (gwb_config self)\<lparr>fee_rate := probe_fee (runs ! j)\<rparr>
           \<and> call_premium (fst (runs ! j)) = premium \<and> call_age (fst (runs ! j)) = age
           \<and> call_r (fst (runs ! j)) = r \<and> call_sigma (fst (runs ! j)) = sigma
           \<and> call_max_age (fst (runs ! j)) = max_age
           \<and> snd (runs ! j) = run j (fst (runs ! j))" if "j < length runs" for j
  proof -
    from st [OF that]
    have c: "fst (runs ! j) = probe_call self premium age r sigma max_age (probe_fee (runs ! j))"
      and o: "snd (runs ! j) = run j (fst (runs ! j))"
      by blast+
    from probe_call_fields [OF c] o show ?thesis by blast
  qed
  have within: "(\<forall>p \<in> set runs. lo \<le> probe_fee p \<and> probe_fee p \<le> hi)
           \<and> (\<forall>fee. res = Inr fee \<longrightarrow> lo \<le> fee \<and> fee \<le> hi)" if "lo \<le> hi"
    using bisection_within_bracket [OF b that] by simp
  have half: "n_paths (call_simulator (fst p)) \<noteq> n_paths self"
    if "1 \<le> n_paths self" "p \<in> set runs" for p
  proof -
    from that(2) obtain j where "j < length runs" "p = runs ! j"
      by (auto simp: in_set_conv_nth)
    with calls [of j] have "n_paths (call_simulator (fst p)) = n_paths self div 2" by simp
    with that(1) show ?thesis by simp
  qed
  from tr calls within half show ?thesis
    unfolding bisection_trace_def step_sign_def by blast
qed


lemma example_fee_value:
  "fst example_fee = Inr (641 / 32000)
   \<and> map (\<lambda>p. (probe_fee p, n_paths (call_simulator (fst p)), snd p)) (snd example_fee) =
       [(31 / 2000, 5000, Inr (9 / 1000)),
        (91 / 4000, 5000, Inr (- (11 / 2000))),
        (153 / 8000, 5000, Inr (7 / 4000)),
        (335 / 16000, 5000, Inr (- (3 / 1600))),
        (641 / 32000, 5000, Inr (- (1 / 16000)))]"
  by (simp add: example_fee_def calculate_fair_fee_def eval_nat_numeral cost_at_fee_def probe_call_def
      probe_fee_def and_then_def linear_cost_def example_simulator_def example_config_def Let_def)

theorem fair_fee_bisection_witness:
  "length (snd example_fee) \<le> 20
   \<and> fst example_fee = Inr (641 / 32000)
   \<and> probe_fee (snd example_fee ! 0) = 31 / 2000
   \<and> n_paths (call_simulator (fst (snd example_fee ! 0))) = 5000
   \<and> 1 / 1000 \<le> probe_fee (last (snd example_fee))"
proof -
  have run: "calculate_fair_fee linear_cost example_simulator 100 65 (4 / 100) (18 / 100) 100 0
       (1 / 1000, 3 / 100) (1 / 1000) 20 = (fst example_fee, snd example_fee)"
    by (simp add: example_fee_def)
  note m = example_fee_value [THEN conjunct2]
  have "length (map (\<lambda>p. (probe_fee p, n_paths (call_simulator (fst p)), snd p)) (snd example_fee)) = 5"
    unfolding m by simp
  then have len: "length (snd example_fee) = 5" by simp
  have v: "fst example_fee = Inr (641 / 32000)"
    by (rule example_fee_value [THEN conjunct1])
  from len have ne: "snd example_fee \<noteq> []" "0 < length (snd example_fee)"
    by auto
  from ne(1) have lst: "last (snd example_fee) \<in> set (snd example_fee)"
    by (rule last_in_set)
  have n: "n_paths example_simulator div 2 = 5000" by (simp add: example_simulator_def)
  from fair_fee_bisection [OF run] v len ne lst n show ?thesis
    by auto
qed

text \<open>
  With a configured path count of 10000 the solver makes five runs, each at 5000 paths,
  and returns the fee of the fifth; 10000 paths are never simulated.
\<close>

theorem fair_fee_no_full_run_counterexample:
  "n_paths example_simulator = 10000
   \<and> fst example_fee = Inr (641 / 32000)
   \<and> map (n_paths \<circ> call_simulator \<circ> fst) (snd example_fee) = [5000, 5000, 5000, 5000, 5000]
   \<and> 10000 \<notin> set (map (n_paths \<circ> call_simulator \<circ> fst) (snd example_fee))"
  by (simp add: example_fee_def calculate_fair_fee_def eval_nat_numeral cost_at_fee_def probe_call_def
      probe_fee_def and_then_def linear_cost_def example_simulator_def example_config_def Let_def)

end
